theory Spec2Isabelle
  imports Main "HOL-Library.Word" "HOL-Library.List_Lexorder" "HOL-Library.Char_ord"
    "HOL-Library.Multiset"
begin

unbundle bit_operations_syntax

section \<open>Byte sources and sinks\<close>

text \<open>
  The frame codec reads from a Go \<^verbatim>\<open>*bytes.Reader\<close> and writes to a \<^verbatim>\<open>*bytes.Buffer\<close>.
  A reader is modelled by the part of its slice that has not been read yet, a buffer by
  the bytes written so far. Every read returns the new reader next to its result.
  Memory is unbounded in the model: \<^verbatim>\<open>make\<close> and \<^verbatim>\<open>append\<close> always succeed.
\<close>

type_synonym byte = "8 word"
type_synonym Reader = "byte list"
type_synonym Buffer = "byte list"

text \<open>\<^verbatim>\<open>ReadByte\<close>: the next byte, or \<^verbatim>\<open>(0, io.EOF)\<close> when nothing is left.
  The boolean is \<open>True\<close> when the error is nil.\<close>

definition ReadByte :: "Reader \<Rightarrow> byte \<times> bool \<times> Reader" where
  "ReadByte buffer = (case buffer of [] \<Rightarrow> (0, False, []) | b # bs \<Rightarrow> (b, True, bs))"

text \<open>\<^verbatim>\<open>UnreadByte\<close> after a successful \<^verbatim>\<open>ReadByte\<close> that returned \<open>b\<close>: the byte is
  unread again.\<close>

definition UnreadByte :: "byte \<Rightarrow> Reader \<Rightarrow> Reader" where
  "UnreadByte b buffer = b # buffer"

text \<open>\<^verbatim>\<open>buffer.Read(data)\<close>: copies as many bytes as are left, at most \<^verbatim>\<open>len(data)\<close>, to
  the front of \<open>data\<close>; the rest of \<open>data\<close> keeps its content.\<close>

definition Reader_Read :: "Reader \<Rightarrow> byte list \<Rightarrow> byte list \<times> Reader" where
  "Reader_Read buffer data =
     (let n = min (length data) (length buffer)
      in (take n buffer @ drop n data, drop n buffer))"

text \<open>Big-endian bytes of fixed-width integers, and back.\<close>

definition be_bytes16 :: "16 word \<Rightarrow> byte list" where
  "be_bytes16 w = [ucast (drop_bit 8 w), ucast w]"

definition be_bytes32 :: "32 word \<Rightarrow> byte list" where
  "be_bytes32 w = [ucast (drop_bit 24 w), ucast (drop_bit 16 w), ucast (drop_bit 8 w), ucast w]"

definition be_bytes64 :: "64 word \<Rightarrow> byte list" where
  "be_bytes64 w =
     [ucast (drop_bit 56 w), ucast (drop_bit 48 w), ucast (drop_bit 40 w),
      ucast (drop_bit 32 w), ucast (drop_bit 24 w), ucast (drop_bit 16 w),
      ucast (drop_bit 8 w), ucast w]"

fun be_uint :: "byte list \<Rightarrow> 'a::len word \<Rightarrow> 'a word" where
  "be_uint [] acc = acc"
| "be_uint (b # bs) acc = be_uint bs (push_bit 8 acc OR ucast b)"

text \<open>
  \<^verbatim>\<open>binary.Read(buffer, binary.BigEndian, &x)\<close> reads the whole width of \<open>x\<close> with
  \<^verbatim>\<open>io.ReadFull\<close>. When fewer bytes are left, the bytes that are left are consumed, an
  error is returned (every caller in the codec drops it) and \<open>x\<close> keeps its old value.
\<close>

definition binary_Read_uint16 :: "Reader \<Rightarrow> 16 word \<Rightarrow> 16 word \<times> Reader" where
  "binary_Read_uint16 buffer old =
     (if 2 \<le> length buffer then (be_uint (take 2 buffer) 0, drop 2 buffer) else (old, []))"

definition binary_Read_uint64 :: "Reader \<Rightarrow> 64 word \<Rightarrow> 64 word \<times> Reader" where
  "binary_Read_uint64 buffer old =
     (if 8 \<le> length buffer then (be_uint (take 8 buffer) 0, drop 8 buffer) else (old, []))"

definition binary_Read_bytes :: "Reader \<Rightarrow> byte list \<Rightarrow> byte list \<times> Reader" where
  "binary_Read_bytes buffer old =
     (if length old \<le> length buffer
      then (take (length old) buffer, drop (length old) buffer) else (old, []))"

text \<open>\<^verbatim>\<open>make([]byte, n, n)\<close>: \<open>n\<close> zero bytes.\<close>

definition make_bytes :: "nat \<Rightarrow> byte list" where
  "make_bytes n = replicate n 0"

section \<open>Variable-length integers\<close>

text \<open>
  Modelled from the spec: \<^verbatim>\<open>ReadVarInt\<close> and \<^verbatim>\<open>WriteVarInt\<close> are not among the sources.
  The spec describes them as QUIC's variable-length integer codec: the two most
  significant bits of the first byte select a total length of 1, 2, 4 or 8 bytes, the
  remaining bits are the value in big-endian order, and \<^verbatim>\<open>readVarInt\<close> returns the value
  with a success flag. On an exhausted or too short source the model returns the value 0
  with the flag \<open>False\<close> and leaves the source exhausted. The writer uses the shortest of
  the four widths.
\<close>

definition ReadVarInt :: "Reader \<Rightarrow> 64 word \<times> bool \<times> Reader" where
  "ReadVarInt buffer =
     (case buffer of
        [] \<Rightarrow> (0, False, [])
      | b # bs \<Rightarrow>
          (let n = (2::nat) ^ unat (drop_bit 6 b)
           in if length buffer < n then (0, False, [])
              else (be_uint (take (n - 1) bs) (ucast (b AND 0x3f)), True, drop (n - 1) bs)))"

definition WriteVarInt :: "Buffer \<Rightarrow> 64 word \<Rightarrow> Buffer" where
  "WriteVarInt buffer v =
     (if v < 0x40 then buffer @ [ucast v]
      else if v < 0x4000 then buffer @ be_bytes16 (ucast v OR 0x4000)
      else if v < 0x40000000 then buffer @ be_bytes32 (ucast v OR 0x80000000)
      else buffer @ be_bytes64 (v OR 0xC000000000000000))"

section \<open>Frame types\<close>

type_synonym FrameType = "8 word"

definition PaddingFrameType :: FrameType where "PaddingFrameType = 0x00"
definition ResetStreamType :: FrameType where "ResetStreamType = 0x01"
definition ConnectionCloseType :: FrameType where "ConnectionCloseType = 0x02"
definition ApplicationCloseType :: FrameType where "ApplicationCloseType = 0x03"
definition MaxDataType :: FrameType where "MaxDataType = 0x04"
definition MaxStreamDataType :: FrameType where "MaxStreamDataType = 0x05"
definition MaxStreamIdType :: FrameType where "MaxStreamIdType = 0x06"
definition PingType :: FrameType where "PingType = 0x07"
definition BlockedType :: FrameType where "BlockedType = 0x08"
definition StreamBlockedType :: FrameType where "StreamBlockedType = 0x09"
definition StreamIdBlockedType :: FrameType where "StreamIdBlockedType = 0x0a"
definition NewConnectionIdType :: FrameType where "NewConnectionIdType = 0x0b"
definition StopSendingType :: FrameType where "StopSendingType = 0x0c"
definition PongType :: FrameType where "PongType = 0x0d"
definition AckType :: FrameType where "AckType = 0x0e"
definition StreamType :: FrameType where "StreamType = 0x10"

section \<open>Frames\<close>

text \<open>Each Go struct is a record; the fields carry a prefix, since several structs use
  the same field names. A constructor \<^verbatim>\<open>New...\<close> takes the reader positioned at the tag
  byte and returns the frame with the reader after the call.\<close>

subsection \<open>Padding\<close>

type_synonym PaddingFrame = byte

definition PaddingFrame_writeTo :: "PaddingFrame \<Rightarrow> Buffer \<Rightarrow> Buffer" where
  "PaddingFrame_writeTo frame buffer = buffer @ [PaddingFrameType]"

definition NewPaddingFrame :: "Reader \<Rightarrow> PaddingFrame \<times> Reader" where
  "NewPaddingFrame buffer = (let (_, _, buffer) = ReadByte buffer in (0, buffer))"

subsection \<open>ResetStream\<close>

record ResetStream =
  rs_streamId :: "64 word"
  rs_errorCode :: "16 word"
  rs_finalOffset :: "64 word"

definition ResetStream_writeTo :: "ResetStream \<Rightarrow> Buffer \<Rightarrow> Buffer" where
  "ResetStream_writeTo frame buffer =
     (let buffer = buffer @ [ResetStreamType];
          buffer = WriteVarInt buffer (rs_streamId frame);
          buffer = buffer @ be_bytes16 (rs_errorCode frame)
      in WriteVarInt buffer (rs_finalOffset frame))"

definition NewResetStream :: "Reader \<Rightarrow> ResetStream \<times> Reader" where
  "NewResetStream buffer =
     (let frame = \<lparr>rs_streamId = 0, rs_errorCode = 0, rs_finalOffset = 0\<rparr>;
          (_, _, buffer) = ReadByte buffer;
          (v, _, buffer) = ReadVarInt buffer;
          frame = frame\<lparr>rs_streamId := v\<rparr>;
          (e, buffer) = binary_Read_uint16 buffer (rs_errorCode frame);
          frame = frame\<lparr>rs_errorCode := e\<rparr>;
          (v, _, buffer) = ReadVarInt buffer;
          frame = frame\<lparr>rs_finalOffset := v\<rparr>
      in (frame, buffer))"

subsection \<open>ConnectionClose and ApplicationClose\<close>

text \<open>The reason phrase, a Go string, is the list of its bytes.\<close>

record ConnectionCloseFrame =
  cc_errorCode :: "16 word"
  cc_reasonPhraseLength :: "64 word"
  cc_reasonPhrase :: "byte list"

definition ConnectionCloseFrame_writeTo :: "ConnectionCloseFrame \<Rightarrow> Buffer \<Rightarrow> Buffer" where
  "ConnectionCloseFrame_writeTo frame buffer =
     (let buffer = buffer @ [ConnectionCloseType];
          buffer = buffer @ be_bytes16 (cc_errorCode frame);
          buffer = WriteVarInt buffer (cc_reasonPhraseLength frame)
      in if cc_reasonPhraseLength frame > 0 then buffer @ cc_reasonPhrase frame else buffer)"

definition NewConnectionCloseFrame :: "Reader \<Rightarrow> ConnectionCloseFrame \<times> Reader" where
  "NewConnectionCloseFrame buffer =
     (let frame = \<lparr>cc_errorCode = 0, cc_reasonPhraseLength = 0, cc_reasonPhrase = []\<rparr>;
          (_, _, buffer) = ReadByte buffer;
          (e, buffer) = binary_Read_uint16 buffer (cc_errorCode frame);
          frame = frame\<lparr>cc_errorCode := e\<rparr>;
          (v, _, buffer) = ReadVarInt buffer;
          frame = frame\<lparr>cc_reasonPhraseLength := v\<rparr>
      in if cc_reasonPhraseLength frame > 0
         then (let reasonBytes = make_bytes (unat (cc_reasonPhraseLength frame));
                   (reasonBytes, buffer) = binary_Read_bytes buffer reasonBytes
               in (frame\<lparr>cc_reasonPhrase := reasonBytes\<rparr>, buffer))
         else (frame, buffer))"

record ApplicationCloseFrame =
  ac_errorCode :: "16 word"
  ac_reasonPhraseLength :: "64 word"
  ac_reasonPhrase :: "byte list"

definition ApplicationCloseFrame_writeTo :: "ApplicationCloseFrame \<Rightarrow> Buffer \<Rightarrow> Buffer" where
  "ApplicationCloseFrame_writeTo frame buffer =
     (let buffer = buffer @ [ApplicationCloseType];
          buffer = buffer @ be_bytes16 (ac_errorCode frame);
          buffer = buffer @ be_bytes64 (ac_reasonPhraseLength frame)
      in if ac_reasonPhraseLength frame > 0 then buffer @ ac_reasonPhrase frame else buffer)"

definition NewApplicationCloseFrame :: "Reader \<Rightarrow> ApplicationCloseFrame \<times> Reader" where
  "NewApplicationCloseFrame buffer =
     (let frame = \<lparr>ac_errorCode = 0, ac_reasonPhraseLength = 0, ac_reasonPhrase = []\<rparr>;
          (_, _, buffer) = ReadByte buffer;
          (e, buffer) = binary_Read_uint16 buffer (ac_errorCode frame);
          frame = frame\<lparr>ac_errorCode := e\<rparr>;
          (v, _, buffer) = ReadVarInt buffer;
          frame = frame\<lparr>ac_reasonPhraseLength := v\<rparr>
      in if ac_reasonPhraseLength frame > 0
         then (let reasonBytes = make_bytes (unat (ac_reasonPhraseLength frame));
                   (reasonBytes, buffer) = binary_Read_bytes buffer reasonBytes
               in (frame\<lparr>ac_reasonPhrase := reasonBytes\<rparr>, buffer))
         else (frame, buffer))"

subsection \<open>MaxData, MaxStreamData, MaxStreamId\<close>

record MaxDataFrame =
  md_maximumData :: "64 word"

definition MaxDataFrame_writeTo :: "MaxDataFrame \<Rightarrow> Buffer \<Rightarrow> Buffer" where
  "MaxDataFrame_writeTo frame buffer =
     (let buffer = buffer @ [MaxDataType] in WriteVarInt buffer (md_maximumData frame))"

definition NewMaxDataFrame :: "Reader \<Rightarrow> MaxDataFrame \<times> Reader" where
  "NewMaxDataFrame buffer =
     (let frame = \<lparr>md_maximumData = 0\<rparr>;
          (_, _, buffer) = ReadByte buffer;
          (v, _, buffer) = ReadVarInt buffer;
          frame = frame\<lparr>md_maximumData := v\<rparr>;
          (v, buffer) = binary_Read_uint64 buffer (md_maximumData frame);
          frame = frame\<lparr>md_maximumData := v\<rparr>
      in (frame, buffer))"

record MaxStreamDataFrame =
  msd_streamId :: "64 word"
  msd_maximumStreamData :: "64 word"

definition MaxStreamDataFrame_writeTo :: "MaxStreamDataFrame \<Rightarrow> Buffer \<Rightarrow> Buffer" where
  "MaxStreamDataFrame_writeTo frame buffer =
     (let buffer = buffer @ [MaxStreamDataType];
          buffer = WriteVarInt buffer (msd_streamId frame)
      in WriteVarInt buffer (msd_maximumStreamData frame))"

definition NewMaxStreamDataFrame :: "Reader \<Rightarrow> MaxStreamDataFrame \<times> Reader" where
  "NewMaxStreamDataFrame buffer =
     (let frame = \<lparr>msd_streamId = 0, msd_maximumStreamData = 0\<rparr>;
          (_, _, buffer) = ReadByte buffer;
          (v, _, buffer) = ReadVarInt buffer;
          frame = frame\<lparr>msd_streamId := v\<rparr>;
          (v, _, buffer) = ReadVarInt buffer;
          frame = frame\<lparr>msd_maximumStreamData := v\<rparr>
      in (frame, buffer))"

record MaxStreamIdFrame =
  msi_maximumStreamId :: "64 word"

definition MaxStreamIdFrame_writeTo :: "MaxStreamIdFrame \<Rightarrow> Buffer \<Rightarrow> Buffer" where
  "MaxStreamIdFrame_writeTo frame buffer =
     (let buffer = buffer @ [MaxStreamIdType] in WriteVarInt buffer (msi_maximumStreamId frame))"

definition NewMaxStreamIdFrame :: "Reader \<Rightarrow> MaxStreamIdFrame \<times> Reader" where
  "NewMaxStreamIdFrame buffer =
     (let frame = \<lparr>msi_maximumStreamId = 0\<rparr>;
          (_, _, buffer) = ReadByte buffer;
          (v, _, buffer) = ReadVarInt buffer;
          frame = frame\<lparr>msi_maximumStreamId := v\<rparr>
      in (frame, buffer))"

subsection \<open>Ping and Pong\<close>

record PingFrame =
  ping_length :: "8 word"
  ping_data :: "byte list"

definition PingFrame_writeTo :: "PingFrame \<Rightarrow> Buffer \<Rightarrow> Buffer" where
  "PingFrame_writeTo frame buffer =
     (let buffer = buffer @ [PingType];
          buffer = buffer @ [ping_length frame]
      in if ping_length frame > 0 then buffer @ ping_data frame else buffer)"

definition NewPingFrame :: "Reader \<Rightarrow> PingFrame \<times> Reader" where
  "NewPingFrame buffer =
     (let frame = \<lparr>ping_length = 0, ping_data = []\<rparr>;
          (_, _, buffer) = ReadByte buffer;
          (l, _, buffer) = ReadByte buffer;
          frame = frame\<lparr>ping_length := l\<rparr>
      in if ping_length frame > 0
         then (let frame = frame\<lparr>ping_data := make_bytes (unat (ping_length frame))\<rparr>;
                   (d, buffer) = Reader_Read buffer (ping_data frame)
               in (frame\<lparr>ping_data := d\<rparr>, buffer))
         else (frame, buffer))"

text \<open>
  \<^verbatim>\<open>PongFrame\<close> embeds \<^verbatim>\<open>PingFrame\<close>. It declares its own \<^verbatim>\<open>FrameType\<close> method but no
  \<^verbatim>\<open>writeTo\<close>: the promoted method is \<^verbatim>\<open>PingFrame.writeTo\<close>, whose receiver is the
  embedded ping frame, so the tag it writes is \<^verbatim>\<open>PingFrame.FrameType()\<close>.
\<close>

datatype PongFrame = PongFrame (PingFrame: PingFrame)

definition PongFrame_writeTo :: "PongFrame \<Rightarrow> Buffer \<Rightarrow> Buffer" where
  "PongFrame_writeTo frame buffer = PingFrame_writeTo (PingFrame frame) buffer"

definition NewPongFrame :: "Reader \<Rightarrow> PongFrame \<times> Reader" where
  "NewPongFrame buffer =
     (let frame = \<lparr>ping_length = 0, ping_data = []\<rparr>;
          (_, _, buffer) = ReadByte buffer;
          (l, _, buffer) = ReadByte buffer;
          frame = frame\<lparr>ping_length := l\<rparr>
      in if ping_length frame > 0
         then (let frame = frame\<lparr>ping_data := make_bytes (unat (ping_length frame))\<rparr>;
                   (d, buffer) = Reader_Read buffer (ping_data frame)
               in (PongFrame (frame\<lparr>ping_data := d\<rparr>), buffer))
         else (PongFrame frame, buffer))"

subsection \<open>Blocked, StreamBlocked, StreamIdBlocked\<close>

record BlockedFrame =
  bl_offset :: "64 word"

definition BlockedFrame_writeTo :: "BlockedFrame \<Rightarrow> Buffer \<Rightarrow> Buffer" where
  "BlockedFrame_writeTo frame buffer =
     (let buffer = buffer @ [BlockedType] in WriteVarInt buffer (bl_offset frame))"

definition NewBlockedFrame :: "Reader \<Rightarrow> BlockedFrame \<times> Reader" where
  "NewBlockedFrame buffer =
     (let frame = \<lparr>bl_offset = 0\<rparr>;
          (_, _, buffer) = ReadByte buffer;
          (v, _, buffer) = ReadVarInt buffer;
          frame = frame\<lparr>bl_offset := v\<rparr>
      in (frame, buffer))"

record StreamBlockedFrame =
  sb_streamId :: "64 word"
  sb_offset :: "64 word"

definition StreamBlockedFrame_writeTo :: "StreamBlockedFrame \<Rightarrow> Buffer \<Rightarrow> Buffer" where
  "StreamBlockedFrame_writeTo frame buffer =
     (let buffer = buffer @ [StreamBlockedType];
          buffer = WriteVarInt buffer (sb_streamId frame)
      in WriteVarInt buffer (sb_offset frame))"

definition NewStreamBlockedFrame :: "Reader \<Rightarrow> StreamBlockedFrame \<times> Reader" where
  "NewStreamBlockedFrame buffer =
     (let frame = \<lparr>sb_streamId = 0, sb_offset = 0\<rparr>;
          (_, _, buffer) = ReadByte buffer;
          (v, _, buffer) = ReadVarInt buffer;
          frame = frame\<lparr>sb_streamId := v\<rparr>;
          (v, _, buffer) = ReadVarInt buffer;
          frame = frame\<lparr>sb_offset := v\<rparr>
      in (frame, buffer))"

record StreamIdBlockedFrame =
  sib_streamId :: "64 word"

definition StreamIdBlockedFrame_writeTo :: "StreamIdBlockedFrame \<Rightarrow> Buffer \<Rightarrow> Buffer" where
  "StreamIdBlockedFrame_writeTo frame buffer =
     (let buffer = buffer @ [StreamIdBlockedType] in WriteVarInt buffer (sib_streamId frame))"

definition NewStreamIdNeededFrame :: "Reader \<Rightarrow> StreamIdBlockedFrame \<times> Reader" where
  "NewStreamIdNeededFrame buffer =
     (let frame = \<lparr>sib_streamId = 0\<rparr>;
          (_, _, buffer) = ReadByte buffer;
          (v, _, buffer) = ReadVarInt buffer;
          frame = frame\<lparr>sib_streamId := v\<rparr>
      in (frame, buffer))"

subsection \<open>NewConnectionId and StopSending\<close>

text \<open>The stateless reset token, a \<^verbatim>\<open>[16]byte\<close>, is a list of 16 bytes.\<close>

record NewConnectionIdFrame =
  nci_sequence :: "64 word"
  nci_connectionId :: "64 word"
  nci_statelessResetToken :: "byte list"

definition NewConnectionIdFrame_writeTo :: "NewConnectionIdFrame \<Rightarrow> Buffer \<Rightarrow> Buffer" where
  "NewConnectionIdFrame_writeTo frame buffer =
     (let buffer = buffer @ [NewConnectionIdType];
          buffer = WriteVarInt buffer (nci_sequence frame);
          buffer = WriteVarInt buffer (nci_connectionId frame)
      in buffer @ nci_statelessResetToken frame)"

definition NewNewConnectionIdFrame :: "Reader \<Rightarrow> NewConnectionIdFrame \<times> Reader" where
  "NewNewConnectionIdFrame buffer =
     (let frame = \<lparr>nci_sequence = 0, nci_connectionId = 0,
                    nci_statelessResetToken = make_bytes 16\<rparr>;
          (_, _, buffer) = ReadByte buffer;
          (v, _, buffer) = ReadVarInt buffer;
          frame = frame\<lparr>nci_sequence := v\<rparr>;
          (v, _, buffer) = ReadVarInt buffer;
          frame = frame\<lparr>nci_connectionId := v\<rparr>;
          (t, buffer) = binary_Read_bytes buffer (nci_statelessResetToken frame);
          frame = frame\<lparr>nci_statelessResetToken := t\<rparr>
      in (frame, buffer))"

record StopSendingFrame =
  ss_streamId :: "64 word"
  ss_errorCode :: "16 word"

definition StopSendingFrame_writeTo :: "StopSendingFrame \<Rightarrow> Buffer \<Rightarrow> Buffer" where
  "StopSendingFrame_writeTo frame buffer =
     (let buffer = buffer @ [StopSendingType];
          buffer = WriteVarInt buffer (ss_streamId frame)
      in buffer @ be_bytes16 (ss_errorCode frame))"

definition NewStopSendingFrame :: "Reader \<Rightarrow> StopSendingFrame \<times> Reader" where
  "NewStopSendingFrame buffer =
     (let frame = \<lparr>ss_streamId = 0, ss_errorCode = 0\<rparr>;
          (_, _, buffer) = ReadByte buffer;
          (v, _, buffer) = ReadVarInt buffer;
          frame = frame\<lparr>ss_streamId := v\<rparr>;
          (e, buffer) = binary_Read_uint16 buffer (ss_errorCode frame);
          frame = frame\<lparr>ss_errorCode := e\<rparr>
      in (frame, buffer))"

subsection \<open>Ack\<close>

record AckBlock =
  gap :: "64 word"
  block :: "64 word"

record AckFrame =
  largestAcknowledged :: "64 word"
  ackDelay :: "64 word"
  ackBlockCount :: "64 word"
  ackBlocks :: "AckBlock list"

text \<open>The loop of \<^verbatim>\<open>writeTo\<close> over \<^verbatim>\<open>frame.ackBlocks\<close>, with its index \<open>i\<close>.\<close>

fun write_ackBlocks :: "nat \<Rightarrow> AckBlock list \<Rightarrow> Buffer \<Rightarrow> Buffer" where
  "write_ackBlocks i [] buffer = buffer"
| "write_ackBlocks i (ack # acks) buffer =
     (let buffer = (if i > 0 then WriteVarInt buffer (gap ack) else buffer);
          buffer = WriteVarInt buffer (block ack)
      in write_ackBlocks (Suc i) acks buffer)"

definition AckFrame_writeTo :: "AckFrame \<Rightarrow> Buffer \<Rightarrow> Buffer" where
  "AckFrame_writeTo frame buffer =
     (let buffer = buffer @ [AckType];
          buffer = WriteVarInt buffer (largestAcknowledged frame);
          buffer = WriteVarInt buffer (ackDelay frame);
          buffer = WriteVarInt buffer (ackBlockCount frame)
      in write_ackBlocks 0 (ackBlocks frame) buffer)"

text \<open>The loop of \<^verbatim>\<open>ReadAckFrame\<close>: \<open>n\<close> is the number of iterations still to run,
  \<^verbatim>\<open>ackBlockCount - i\<close>.\<close>

fun read_ackBlocks :: "nat \<Rightarrow> Reader \<Rightarrow> AckBlock list \<Rightarrow> AckBlock list \<times> Reader" where
  "read_ackBlocks 0 buffer blocks = (blocks, buffer)"
| "read_ackBlocks (Suc n) buffer blocks =
     (let ack = \<lparr>gap = 0, block = 0\<rparr>;
          (v, _, buffer) = ReadVarInt buffer;
          ack = ack\<lparr>gap := v\<rparr>;
          (v, _, buffer) = ReadVarInt buffer;
          ack = ack\<lparr>block := v\<rparr>
      in read_ackBlocks n buffer (blocks @ [ack]))"

definition ReadAckFrame :: "Reader \<Rightarrow> AckFrame \<times> Reader" where
  "ReadAckFrame buffer =
     (let frame = \<lparr>largestAcknowledged = 0, ackDelay = 0, ackBlockCount = 0, ackBlocks = []\<rparr>;
          (_, _, buffer) = ReadByte buffer;
          (v, _, buffer) = ReadVarInt buffer;
          frame = frame\<lparr>largestAcknowledged := v\<rparr>;
          (v, _, buffer) = ReadVarInt buffer;
          frame = frame\<lparr>ackDelay := v\<rparr>;
          (v, _, buffer) = ReadVarInt buffer;
          frame = frame\<lparr>ackBlockCount := v\<rparr>;
          firstBlock = \<lparr>gap = 0, block = 0\<rparr>;
          (v, _, buffer) = ReadVarInt buffer;
          firstBlock = firstBlock\<lparr>block := v\<rparr>;
          (blocks, buffer) = read_ackBlocks (unat (ackBlockCount frame)) buffer (ackBlocks frame)
      in (frame\<lparr>ackBlocks := blocks\<rparr>, buffer))"

definition NewAckFrame :: "64 word \<Rightarrow> 64 word \<Rightarrow> AckFrame" where
  "NewAckFrame largestAcknowledged' ackBlockCount' =
     (let frame = \<lparr>largestAcknowledged = 0, ackDelay = 0, ackBlockCount = 0, ackBlocks = []\<rparr>;
          frame = frame\<lparr>largestAcknowledged := largestAcknowledged'\<rparr>;
          frame = frame\<lparr>ackBlockCount := 0\<rparr>;
          frame = frame\<lparr>ackDelay := 0\<rparr>
      in frame\<lparr>ackBlocks := ackBlocks frame @ [\<lparr>gap = 0, block = ackBlockCount'\<rparr>]\<rparr>)"

subsection \<open>Stream\<close>

record StreamFrame =
  finBit :: bool
  lenBit :: bool
  offBit :: bool
  st_streamId :: "64 word"
  st_offset :: "64 word"
  st_length :: "64 word"
  streamData :: "byte list"

definition StreamFrame_writeTo :: "StreamFrame \<Rightarrow> Buffer \<Rightarrow> Buffer" where
  "StreamFrame_writeTo frame buffer =
     (let typeByte = StreamType;
          typeByte = (if finBit frame then typeByte OR 0x01 else typeByte);
          typeByte = (if lenBit frame then typeByte OR 0x02 else typeByte);
          typeByte = (if offBit frame then typeByte OR 0x04 else typeByte);
          buffer = buffer @ [typeByte];
          buffer = WriteVarInt buffer (st_streamId frame);
          buffer = (if offBit frame then WriteVarInt buffer (st_offset frame) else buffer);
          buffer = (if lenBit frame then WriteVarInt buffer (st_length frame) else buffer)
      in buffer @ streamData frame)"

text \<open>\<^verbatim>\<open>ReadStreamFrame\<close> does not use its connection argument, which is left out.\<close>

definition ReadStreamFrame :: "Reader \<Rightarrow> StreamFrame \<times> Reader" where
  "ReadStreamFrame buffer =
     (let frame = \<lparr>finBit = False, lenBit = False, offBit = False, st_streamId = 0,
                    st_offset = 0, st_length = 0, streamData = []\<rparr>;
          (typeByte, _, buffer) = ReadByte buffer;
          frame = frame\<lparr>finBit := (typeByte AND 0x01 = 0x01)\<rparr>;
          frame = frame\<lparr>lenBit := (typeByte AND 0x02 = 0x02)\<rparr>;
          frame = frame\<lparr>offBit := (typeByte AND 0x04 = 0x04)\<rparr>;
          (v, _, buffer) = ReadVarInt buffer;
          frame = frame\<lparr>st_streamId := v\<rparr>;
          (frame, buffer) =
            (if offBit frame
             then (let (v, _, buffer) = ReadVarInt buffer in (frame\<lparr>st_offset := v\<rparr>, buffer))
             else (frame, buffer));
          (frame, buffer) =
            (if lenBit frame
             then (let (v, _, buffer) = ReadVarInt buffer in (frame\<lparr>st_length := v\<rparr>, buffer))
             else (frame, buffer))
      in (frame, buffer))"

text \<open>
  \<^verbatim>\<open>NewStreamFrame\<close> reads and advances the write offset of the stream it is given; the
  model takes the offset and returns the new one with the frame. The \<^verbatim>\<open>streamId\<close>
  argument is not used by the source: the frame's stream id stays 0.
\<close>

definition NewStreamFrame :: "32 word \<Rightarrow> 64 word \<Rightarrow> byte list \<Rightarrow> bool \<Rightarrow> StreamFrame \<times> 64 word" where
  "NewStreamFrame streamId writeOffset data finBit' =
     (let frame = \<lparr>finBit = False, lenBit = False, offBit = False, st_streamId = 0,
                    st_offset = 0, st_length = 0, streamData = []\<rparr>;
          frame = frame\<lparr>finBit := finBit'\<rparr>;
          frame = frame\<lparr>lenBit := True\<rparr>;
          frame = frame\<lparr>st_offset := writeOffset\<rparr>;
          frame = frame\<lparr>offBit := (st_offset frame > 0)\<rparr>;
          frame = frame\<lparr>st_length := word_of_nat (length data)\<rparr>;
          frame = frame\<lparr>streamData := data\<rparr>
      in (frame, writeOffset + st_length frame))"

section \<open>The frame interface and the dispatcher\<close>

datatype Frame =
    Frame_Padding PaddingFrame
  | Frame_ResetStream ResetStream
  | Frame_ConnectionClose ConnectionCloseFrame
  | Frame_ApplicationClose ApplicationCloseFrame
  | Frame_MaxData MaxDataFrame
  | Frame_MaxStreamData MaxStreamDataFrame
  | Frame_MaxStreamId MaxStreamIdFrame
  | Frame_Ping PingFrame
  | Frame_Blocked BlockedFrame
  | Frame_StreamBlocked StreamBlockedFrame
  | Frame_StreamIdBlocked StreamIdBlockedFrame
  | Frame_NewConnectionId NewConnectionIdFrame
  | Frame_StopSending StopSendingFrame
  | Frame_Pong PongFrame
  | Frame_Ack AckFrame
  | Frame_Stream StreamFrame

fun FrameType :: "Frame \<Rightarrow> FrameType" where
  "FrameType (Frame_Padding f) = PaddingFrameType"
| "FrameType (Frame_ResetStream f) = ResetStreamType"
| "FrameType (Frame_ConnectionClose f) = ConnectionCloseType"
| "FrameType (Frame_ApplicationClose f) = ApplicationCloseType"
| "FrameType (Frame_MaxData f) = MaxDataType"
| "FrameType (Frame_MaxStreamData f) = MaxStreamDataType"
| "FrameType (Frame_MaxStreamId f) = MaxStreamIdType"
| "FrameType (Frame_Ping f) = PingType"
| "FrameType (Frame_Blocked f) = BlockedType"
| "FrameType (Frame_StreamBlocked f) = StreamBlockedType"
| "FrameType (Frame_StreamIdBlocked f) = StreamIdBlockedType"
| "FrameType (Frame_NewConnectionId f) = NewConnectionIdType"
| "FrameType (Frame_StopSending f) = StopSendingType"
| "FrameType (Frame_Pong f) = PongType"
| "FrameType (Frame_Ack f) = AckType"
| "FrameType (Frame_Stream f) = StreamType"

fun writeTo :: "Frame \<Rightarrow> Buffer \<Rightarrow> Buffer" where
  "writeTo (Frame_Padding f) buffer = PaddingFrame_writeTo f buffer"
| "writeTo (Frame_ResetStream f) buffer = ResetStream_writeTo f buffer"
| "writeTo (Frame_ConnectionClose f) buffer = ConnectionCloseFrame_writeTo f buffer"
| "writeTo (Frame_ApplicationClose f) buffer = ApplicationCloseFrame_writeTo f buffer"
| "writeTo (Frame_MaxData f) buffer = MaxDataFrame_writeTo f buffer"
| "writeTo (Frame_MaxStreamData f) buffer = MaxStreamDataFrame_writeTo f buffer"
| "writeTo (Frame_MaxStreamId f) buffer = MaxStreamIdFrame_writeTo f buffer"
| "writeTo (Frame_Ping f) buffer = PingFrame_writeTo f buffer"
| "writeTo (Frame_Blocked f) buffer = BlockedFrame_writeTo f buffer"
| "writeTo (Frame_StreamBlocked f) buffer = StreamBlockedFrame_writeTo f buffer"
| "writeTo (Frame_StreamIdBlocked f) buffer = StreamIdBlockedFrame_writeTo f buffer"
| "writeTo (Frame_NewConnectionId f) buffer = NewConnectionIdFrame_writeTo f buffer"
| "writeTo (Frame_StopSending f) buffer = StopSendingFrame_writeTo f buffer"
| "writeTo (Frame_Pong f) buffer = PongFrame_writeTo f buffer"
| "writeTo (Frame_Ack f) buffer = AckFrame_writeTo f buffer"
| "writeTo (Frame_Stream f) buffer = StreamFrame_writeTo f buffer"

text \<open>
  \<^verbatim>\<open>NewFrame\<close> returns \<^verbatim>\<open>nil\<close> (\<open>None\<close>) at the end of the source and panics on a tag
  that no case of its switch takes. A bytes reader returns no error other than
  \<^verbatim>\<open>io.EOF\<close> from \<^verbatim>\<open>ReadByte\<close>, so the second branch of the first test is dead. The
  cases are tried in the order of the source. The type \<open>error\<close> lists the panics of the
  whole development: \<open>UnknownFrameType\<close> is the one \<^verbatim>\<open>NewFrame\<close> raises itself, the others
  are Go's run-time panics.
\<close>

datatype error =
    UnknownFrameType byte
  | IndexOutOfRange
  | SliceBoundsOutOfRange
  | InterfaceConversion
  | NilPointerDereference

definition NewFrame :: "Reader \<Rightarrow> error + (Frame option \<times> Reader)" where
  "NewFrame buffer =
     (let (typeByte, ok, buffer) = ReadByte buffer
      in if \<not> ok then Inr (None, buffer)
         else
          (let buffer = UnreadByte typeByte buffer;
               frameType = typeByte
           in if frameType = PaddingFrameType
                then Inr (map_prod (Some \<circ> Frame_Padding) id (NewPaddingFrame buffer))
              else if frameType = ResetStreamType
                then Inr (map_prod (Some \<circ> Frame_ResetStream) id (NewResetStream buffer))
              else if frameType = ConnectionCloseType
                then Inr (map_prod (Some \<circ> Frame_ConnectionClose) id (NewConnectionCloseFrame buffer))
              else if frameType = ApplicationCloseType
                then Inr (map_prod (Some \<circ> Frame_ApplicationClose) id (NewApplicationCloseFrame buffer))
              else if frameType = MaxDataType
                then Inr (map_prod (Some \<circ> Frame_MaxData) id (NewMaxDataFrame buffer))
              else if frameType = MaxStreamDataType
                then Inr (map_prod (Some \<circ> Frame_MaxStreamData) id (NewMaxStreamDataFrame buffer))
              else if frameType = MaxStreamIdType
                then Inr (map_prod (Some \<circ> Frame_MaxStreamId) id (NewMaxStreamIdFrame buffer))
              else if frameType = PingType
                then Inr (map_prod (Some \<circ> Frame_Ping) id (NewPingFrame buffer))
              else if frameType = BlockedType
                then Inr (map_prod (Some \<circ> Frame_Blocked) id (NewBlockedFrame buffer))
              else if frameType = StreamBlockedType
                then Inr (map_prod (Some \<circ> Frame_StreamBlocked) id (NewStreamBlockedFrame buffer))
              else if frameType = StreamIdBlockedType
                then Inr (map_prod (Some \<circ> Frame_StreamIdBlocked) id (NewStreamIdNeededFrame buffer))
              else if frameType = NewConnectionIdType
                then Inr (map_prod (Some \<circ> Frame_NewConnectionId) id (NewNewConnectionIdFrame buffer))
              else if frameType = StopSendingType
                then Inr (map_prod (Some \<circ> Frame_StopSending) id (NewStopSendingFrame buffer))
              else if frameType = AckType
                then Inr (map_prod (Some \<circ> Frame_Ack) id (ReadAckFrame buffer))
              else if frameType AND StreamType = StreamType
                then Inr (map_prod (Some \<circ> Frame_Stream) id (ReadStreamFrame buffer))
              else Inl (UnknownFrameType typeByte)))"

section \<open>The adapter: abstract symbols\<close>

subsection \<open>What the adapter takes from package \<^verbatim>\<open>qt\<close>\<close>

text \<open>
  The adapter is written against a package \<^verbatim>\<open>qt\<close> whose declarations of \<^verbatim>\<open>PacketType\<close>
  and of the names of frame types are not among the sources. The six packet types the
  adapter names are constructors here; \<open>PacketType_other\<close> stands for every other value
  of the type. What remains unknown is a parameter of the model, the record \<open>qt\<close>:
  the zero value of \<^verbatim>\<open>PacketType\<close> (which a Go map returns for a missing key, and which may
  be one of the six), and the two functions between frame types and their names.
\<close>

datatype PacketType =
    VersionNegotiation | Initial | Retry | Handshake | ZeroRTTProtected | ShortHeaderPacket
  | PacketType_other nat

record 'ft qt =
  PacketType_zero :: PacketType
  FrameType_String :: "'ft \<Rightarrow> string"
  FrameTypeFromString :: "string \<Rightarrow> 'ft"

text \<open>Modelled from the spec: \<^verbatim>\<open>qt.Uint32ToBEBytes\<close> is not among the sources; by its name
  and by the spec's example \<^verbatim>\<open>INITIAL(0xff00001d)\<close> it is the four big-endian bytes.\<close>

definition Uint32ToBEBytes :: "32 word \<Rightarrow> byte list" where
  "Uint32ToBEBytes v = be_bytes32 v"

subsection \<open>Go library functions\<close>

text \<open>Go's untyped set \<^verbatim>\<open>mapset.Set\<close> is an interface. A value of it is \<^verbatim>\<open>nil\<close>, or the set
  that \<^verbatim>\<open>mapset.NewSet\<close> makes, or a struct that embeds a \<^verbatim>\<open>mapset.Set\<close> and so has its
  methods: \<^verbatim>\<open>AbstractSet\<close> is the only one in the sources. A set made by \<^verbatim>\<open>NewSet\<close> is
  given by a list that enumerates its elements; order and repetitions in the list mean
  nothing, \<^verbatim>\<open>ToSlice\<close> returns each element once.\<close>

datatype 'a Set = Set_nil | threadSafeSet "'a list" | Set_AbstractSet "'a Set"

definition NewSet :: "'a Set" where
  "NewSet = threadSafeSet []"

fun Set_Add :: "'a Set \<Rightarrow> 'a \<Rightarrow> error + 'a Set" where
  "Set_Add Set_nil x = Inl NilPointerDereference"
| "Set_Add (threadSafeSet xs) x = Inr (threadSafeSet (if x \<in> set xs then xs else xs @ [x]))"
| "Set_Add (Set_AbstractSet s) x = map_sum id Set_AbstractSet (Set_Add s x)"

fun Set_Cardinality :: "'a Set \<Rightarrow> error + nat" where
  "Set_Cardinality Set_nil = Inl NilPointerDereference"
| "Set_Cardinality (threadSafeSet xs) = Inr (length (remdups xs))"
| "Set_Cardinality (Set_AbstractSet s) = Set_Cardinality s"

fun Set_ToSlice :: "'a Set \<Rightarrow> error + 'a list" where
  "Set_ToSlice Set_nil = Inl NilPointerDereference"
| "Set_ToSlice (threadSafeSet xs) = Inr (remdups xs)"
| "Set_ToSlice (Set_AbstractSet s) = Set_ToSlice s"

text \<open>\<^verbatim>\<open>strings.Split(s, ",")\<close> and \<^verbatim>\<open>strings.Join(xs, ",")\<close>.\<close>

fun Split :: "string \<Rightarrow> char \<Rightarrow> string list" where
  "Split [] sep = [[]]"
| "Split (c # cs) sep =
     (if c = sep then [] # Split cs sep
      else (case Split cs sep of [] \<Rightarrow> [[c]] | x # xs \<Rightarrow> (c # x) # xs))"

fun Join :: "string list \<Rightarrow> string \<Rightarrow> string" where
  "Join [] sep = []"
| "Join [x] sep = x"
| "Join (x # y # ys) sep = x @ sep @ Join (y # ys) sep"

text \<open>\<^verbatim>\<open>sort.Strings\<close> sorts by Go's string order, the lexicographic order of the bytes.\<close>

definition sort_Strings :: "string list \<Rightarrow> string list" where
  "sort_Strings xs = sort xs"

text \<open>\<^verbatim>\<open>fmt.Sprintf("%#x", bs)\<close> on a byte slice: \<^verbatim>\<open>0x\<close> and two lower-case hexadecimal
  digits for each byte.\<close>

definition hex_digit :: "nat \<Rightarrow> char" where
  "hex_digit n = ''0123456789abcdef'' ! (n mod 16)"

definition hex2 :: "byte \<Rightarrow> string" where
  "hex2 b = [hex_digit (unat b div 16), hex_digit (unat b mod 16)]"

definition Sprintf_hex :: "byte list \<Rightarrow> string" where
  "Sprintf_hex bs = ''0x'' @ concat (map hex2 bs)"

text \<open>\<^verbatim>\<open>strconv.ParseUint(s, 16, 32)\<close>: \<open>None\<close> for an error (empty text, a character
  that is no hexadecimal digit, a value that does not fit 32 bits).\<close>

definition hex_value :: "char \<Rightarrow> nat option" where
  "hex_value c =
     (if CHR ''0'' \<le> c \<and> c \<le> CHR ''9'' then Some (of_char c - 48)
      else if CHR ''a'' \<le> c \<and> c \<le> CHR ''f'' then Some (of_char c - 87)
      else if CHR ''A'' \<le> c \<and> c \<le> CHR ''F'' then Some (of_char c - 55)
      else None)"

fun hex_number :: "string \<Rightarrow> nat \<Rightarrow> nat option" where
  "hex_number [] acc = Some acc"
| "hex_number (c # cs) acc =
     (case hex_value c of None \<Rightarrow> None | Some d \<Rightarrow> hex_number cs (16 * acc + d))"

definition ParseUint_16_32 :: "string \<Rightarrow> 32 word option" where
  "ParseUint_16_32 s =
     (if s = [] then None
      else (case hex_number s 0 of
              None \<Rightarrow> None
            | Some n \<Rightarrow> if n < 2 ^ 32 then Some (word_of_nat n) else None))"

text \<open>Indexing a slice, assigning to an index and slicing \<^verbatim>\<open>s[2:]\<close> panic out of range.\<close>

definition index :: "'a list \<Rightarrow> nat \<Rightarrow> error + 'a" where
  "index xs i = (if i < length xs then Inr (xs ! i) else Inl IndexOutOfRange)"

definition assign_index :: "'a list \<Rightarrow> nat \<Rightarrow> 'a \<Rightarrow> error + 'a list" where
  "assign_index xs i v = (if i < length xs then Inr (xs[i := v]) else Inl IndexOutOfRange)"

definition slice_from :: "'a list \<Rightarrow> nat \<Rightarrow> error + 'a list" where
  "slice_from xs i = (if i \<le> length xs then Inr (drop i xs) else Inl SliceBoundsOutOfRange)"

subsection \<open>The regular expression of the parser\<close>

text \<open>
  \<^verbatim>\<open>^([A-Z]+)(\(([0-9a-zx]+)\))?\[([A-Z,]+)\]$\<close>. No character class of the expression
  contains the character that has to follow it, so a match, if there is one, takes the
  longest run of each class: the matcher below reads the text from left to right.
  \<^verbatim>\<open>FindStringSubmatch\<close> returns \<^verbatim>\<open>nil\<close> (the empty list) when the text does not match, and
  otherwise the whole match followed by the four groups, a group that took no part in the
  match being the empty string.
\<close>

definition is_upper :: "char \<Rightarrow> bool" where
  "is_upper c = (CHR ''A'' \<le> c \<and> c \<le> CHR ''Z'')"

definition is_header_char :: "char \<Rightarrow> bool" where
  "is_header_char c =
     ((CHR ''0'' \<le> c \<and> c \<le> CHR ''9'') \<or> (CHR ''a'' \<le> c \<and> c \<le> CHR ''z'') \<or> c = CHR ''x'')"

definition is_frames_char :: "char \<Rightarrow> bool" where
  "is_frames_char c = ((CHR ''A'' \<le> c \<and> c \<le> CHR ''Z'') \<or> c = CHR '','')"

definition match_frames :: "string \<Rightarrow> string \<Rightarrow> string \<Rightarrow> string \<Rightarrow> string \<Rightarrow> string list" where
  "match_frames message g1 g2 g3 rest =
     (case rest of
        [] \<Rightarrow> []
      | c # rest \<Rightarrow>
          if c \<noteq> CHR ''['' then []
          else (let g4 = takeWhile is_frames_char rest;
                    rest = dropWhile is_frames_char rest
                in if g4 = [] then []
                   else if rest = '']'' then [message, g1, g2, g3, g4]
                   else []))"

definition match_header :: "string \<Rightarrow> string \<Rightarrow> string \<Rightarrow> string list" where
  "match_header message g1 rest =
     (let g3 = takeWhile is_header_char rest;
          rest = dropWhile is_header_char rest
      in if g3 = [] then []
         else (case rest of
                 [] \<Rightarrow> []
               | c # rest \<Rightarrow>
                   if c = CHR '')'' then match_frames message g1 (''('' @ g3 @ '')'') g3 rest
                   else []))"

definition FindStringSubmatch :: "string \<Rightarrow> string list" where
  "FindStringSubmatch message =
     (let g1 = takeWhile is_upper message;
          rest = dropWhile is_upper message
      in if g1 = [] then []
         else (case rest of
                 [] \<Rightarrow> []
               | c # after \<Rightarrow>
                   if c = CHR ''('' then match_header message g1 after
                   else match_frames message g1 [] [] rest))"

subsection \<open>AbstractSymbol\<close>

definition packetTypeToString :: "PacketType \<Rightarrow> string" where
  "packetTypeToString t =
     (case t of
        VersionNegotiation \<Rightarrow> ''VERNEG''
      | Initial \<Rightarrow> ''INITIAL''
      | Retry \<Rightarrow> ''RETRY''
      | Handshake \<Rightarrow> ''HANDSHAKE''
      | ZeroRTTProtected \<Rightarrow> ''ZERO''
      | ShortHeaderPacket \<Rightarrow> ''SHORT''
      | PacketType_other n \<Rightarrow> [])"

definition stringToPacketType :: "'ft qt \<Rightarrow> string \<Rightarrow> PacketType" where
  "stringToPacketType q s =
     (if s = ''VERNEG'' then VersionNegotiation
      else if s = ''INITIAL'' then Initial
      else if s = ''RETRY'' then Retry
      else if s = ''HANDSHAKE'' then Handshake
      else if s = ''ZERO'' then ZeroRTTProtected
      else if s = ''SHORT'' then ShortHeaderPacket
      else PacketType_zero q)"

record HeaderOptions =
  QUICVersion :: "32 word option"

definition HeaderOptions_String :: "HeaderOptions \<Rightarrow> string" where
  "HeaderOptions_String ho =
     (let version = []
      in case QUICVersion ho of
           None \<Rightarrow> version
         | Some v \<Rightarrow> Sprintf_hex (Uint32ToBEBytes v))"

record 'ft AbstractSymbol =
  packetType :: PacketType
  headerOptions :: HeaderOptions
  frameTypes :: "'ft Set"

text \<open>The loop of \<^verbatim>\<open>AbstractSymbol.String\<close> over the slice of the frame types.\<close>

fun frameStrings_loop :: "'ft qt \<Rightarrow> 'ft list \<Rightarrow> string list \<Rightarrow> string list" where
  "frameStrings_loop q [] frameStrings = frameStrings"
| "frameStrings_loop q (frameType # rest) frameStrings =
     frameStrings_loop q rest (frameStrings @ [FrameType_String q frameType])"

definition AbstractSymbol_String :: "'ft qt \<Rightarrow> 'ft AbstractSymbol \<Rightarrow> error + string" where
  "AbstractSymbol_String q as =
     (let packetType' = packetTypeToString (packetType as);
          headerOptions' = HeaderOptions_String (headerOptions as)
      in case Set_ToSlice (frameTypes as) of
           Inl e \<Rightarrow> Inl e
         | Inr frameSlice \<Rightarrow>
             (let frameStrings = frameStrings_loop q frameSlice [];
                  frameStrings = sort_Strings frameStrings;
                  frameTypes' = Join frameStrings '',''
              in Inr (packetType' @ ''('' @ headerOptions' @ '')['' @ frameTypes' @ '']'')))"

definition NewAbstractSymbol :: "PacketType \<Rightarrow> HeaderOptions \<Rightarrow> 'ft Set \<Rightarrow> 'ft AbstractSymbol" where
  "NewAbstractSymbol packetType' headerOptions' frameTypes' =
     \<lparr>packetType = packetType', headerOptions = headerOptions', frameTypes = frameTypes'\<rparr>"

text \<open>The loop of the parser that adds the frame type of each name to the set.\<close>

fun frameSplice_loop :: "'ft qt \<Rightarrow> string list \<Rightarrow> 'ft Set \<Rightarrow> error + 'ft Set" where
  "frameSplice_loop q [] frameTypes' = Inr frameTypes'"
| "frameSplice_loop q (frameString # rest) frameTypes' =
     (case Set_Add frameTypes' (FrameTypeFromString q frameString) of
        Inl e \<Rightarrow> Inl e
      | Inr frameTypes' \<Rightarrow> frameSplice_loop q rest frameTypes')"

text \<open>The block of the parser that fills the header options from the third group.\<close>

definition parse_headerOptions :: "string \<Rightarrow> error + HeaderOptions" where
  "parse_headerOptions group3 =
     (let headerOptions' = \<lparr>QUICVersion = None\<rparr>
      in if group3 \<noteq> []
         then (let headerOptionSlice = Split group3 CHR '',''
               in case index headerOptionSlice 0 of
                    Inl e \<Rightarrow> Inl e
                  | Inr option0 \<Rightarrow>
                      (case slice_from option0 2 of
                         Inl e \<Rightarrow> Inl e
                       | Inr digits \<Rightarrow>
                           (case ParseUint_16_32 digits of
                              None \<Rightarrow> Inr headerOptions'
                            | Some version32 \<Rightarrow>
                                Inr (headerOptions'\<lparr>QUICVersion := Some version32\<rparr>))))
         else Inr headerOptions')"

definition NewAbstractSymbolFromString :: "'ft qt \<Rightarrow> string \<Rightarrow> error + 'ft AbstractSymbol" where
  "NewAbstractSymbolFromString q message =
     (let subgroups = FindStringSubmatch message
      in case index subgroups 1 of
           Inl e \<Rightarrow> Inl e
         | Inr group1 \<Rightarrow>
             (let packetType' = stringToPacketType q group1
              in case index subgroups 3 of
                   Inl e \<Rightarrow> Inl e
                 | Inr group3 \<Rightarrow>
                     (case parse_headerOptions group3 of
                        Inl e \<Rightarrow> Inl e
                      | Inr headerOptions' \<Rightarrow>
                          (case index subgroups 4 of
                             Inl e \<Rightarrow> Inl e
                           | Inr group4 \<Rightarrow>
                               (case frameSplice_loop q (Split group4 CHR '','') NewSet of
                                  Inl e \<Rightarrow> Inl e
                                | Inr frameTypes' \<Rightarrow>
                                    Inr (NewAbstractSymbol packetType' headerOptions' frameTypes'))))))"

subsection \<open>AbstractSet\<close>

text \<open>
  The members of an abstract set are symbols. Go compares them with \<^verbatim>\<open>==\<close>, and so their
  pointer fields by address, where the list of a set in the model is read up to equal
  values. The statements about abstract sets below only ask whether a set is empty,
  which both readings answer alike.
\<close>

datatype 'ft AbstractSet = AbstractSet (Set: "'ft AbstractSymbol Set")

text \<open>
  \<^verbatim>\<open>NewAbstractSet\<close> asserts that the interface value returned by \<^verbatim>\<open>mapset.NewSet()\<close> has
  the dynamic type \<^verbatim>\<open>AbstractSet\<close>. The assertion has one result, so it panics when the
  dynamic type is another one.
\<close>

definition assert_AbstractSet :: "'ft AbstractSymbol Set \<Rightarrow> error + 'ft AbstractSet" where
  "assert_AbstractSet v =
     (case v of Set_AbstractSet s \<Rightarrow> Inr (AbstractSet s) | _ \<Rightarrow> Inl InterfaceConversion)"

definition NewAbstractSet :: "error + 'ft AbstractSet" where
  "NewAbstractSet = assert_AbstractSet NewSet"

text \<open>The loop of \<^verbatim>\<open>AbstractSet.String\<close>: it assigns to \<^verbatim>\<open>stringSlice[index]\<close>, and
  \<^verbatim>\<open>stringSlice\<close> starts as the empty slice.\<close>

fun stringSlice_loop ::
  "'ft qt \<Rightarrow> nat \<Rightarrow> 'ft AbstractSymbol list \<Rightarrow> string list \<Rightarrow> error + string list" where
  "stringSlice_loop q index' [] stringSlice = Inr stringSlice"
| "stringSlice_loop q index' (setElement # rest) stringSlice =
     (case AbstractSymbol_String q setElement of
        Inl e \<Rightarrow> Inl e
      | Inr str \<Rightarrow>
          (case assign_index stringSlice index' str of
             Inl e \<Rightarrow> Inl e
           | Inr stringSlice \<Rightarrow> stringSlice_loop q (Suc index') rest stringSlice))"

definition AbstractSet_String :: "'ft qt \<Rightarrow> 'ft AbstractSet \<Rightarrow> error + string" where
  "AbstractSet_String q as =
     (case Set_Cardinality (Set as) of
        Inl e \<Rightarrow> Inl e
      | Inr n \<Rightarrow>
          if n = 0 then Inr ''[]''
          else (case Set_ToSlice (Set as) of
                  Inl e \<Rightarrow> Inl e
                | Inr setSlice \<Rightarrow>
                    (case stringSlice_loop q 0 setSlice [] of
                       Inl e \<Rightarrow> Inl e
                     | Inr stringSlice \<Rightarrow>
                         (let stringSlice = sort_Strings stringSlice
                          in Inr (''['' @ Join stringSlice '','' @ '']'')))))"

subsection \<open>AbstractOrderedPair\<close>

record 'ft AbstractOrderedPair =
  abstractInputs :: "'ft AbstractSymbol list"
  abstractOutputs :: "'ft AbstractSet list"

fun aiStringSlice_loop ::
  "'ft qt \<Rightarrow> 'ft AbstractSymbol list \<Rightarrow> string list \<Rightarrow> error + string list" where
  "aiStringSlice_loop q [] aiStringSlice = Inr aiStringSlice"
| "aiStringSlice_loop q (v # rest) aiStringSlice =
     (case AbstractSymbol_String q v of
        Inl e \<Rightarrow> Inl e
      | Inr str \<Rightarrow> aiStringSlice_loop q rest (aiStringSlice @ [str]))"

fun aoStringSlice_loop ::
  "'ft qt \<Rightarrow> 'ft AbstractSet list \<Rightarrow> string list \<Rightarrow> error + string list" where
  "aoStringSlice_loop q [] aoStringSlice = Inr aoStringSlice"
| "aoStringSlice_loop q (v # rest) aoStringSlice =
     (case AbstractSet_String q v of
        Inl e \<Rightarrow> Inl e
      | Inr str \<Rightarrow> aoStringSlice_loop q rest (aoStringSlice @ [str]))"

definition AbstractOrderedPair_String :: "'ft qt \<Rightarrow> 'ft AbstractOrderedPair \<Rightarrow> error + string" where
  "AbstractOrderedPair_String q ct =
     (case aiStringSlice_loop q (abstractInputs ct) [] of
        Inl e \<Rightarrow> Inl e
      | Inr aiStringSlice \<Rightarrow>
          (let aiString = ''['' @ Join aiStringSlice '','' @ '']''
           in case aoStringSlice_loop q (abstractOutputs ct) [] of
                Inl e \<Rightarrow> Inl e
              | Inr aoStringSlice \<Rightarrow>
                  (let aoString = ''['' @ Join aoStringSlice '','' @ '']''
                   in Inr (''('' @ aiString @ '','' @ aoString @ '')''))))"

section \<open>The adapter: the abstract-to-concrete map\<close>

text \<open>
  The concrete symbols and sets are opaque to the map: they are type variables. The map
  is a Go map from the text of an abstract ordered pair to a concrete ordered pair, made
  by \<^verbatim>\<open>NewAbstractConcreteMap\<close>.
\<close>

record ('cs, 'cset) ConcreteOrderedPair =
  concreteInputs :: "'cs list"
  concreteOutputs :: "'cset list"

type_synonym ('cs, 'cset) AbstractConcreteMap = "string \<rightharpoonup> ('cs, 'cset) ConcreteOrderedPair"

definition NewAbstractConcreteMap :: "('cs, 'cset) AbstractConcreteMap" where
  "NewAbstractConcreteMap = Map.empty"

definition AddOPs ::
  "'ft qt \<Rightarrow> ('cs, 'cset) AbstractConcreteMap \<Rightarrow> 'ft AbstractOrderedPair \<Rightarrow>
   ('cs, 'cset) ConcreteOrderedPair \<Rightarrow> error + ('cs, 'cset) AbstractConcreteMap" where
  "AddOPs q acm abstractOrderedPair concreteOrderedPair =
     (case AbstractOrderedPair_String q abstractOrderedPair of
        Inl e \<Rightarrow> Inl e
      | Inr key \<Rightarrow> Inr (acm(key \<mapsto> concreteOrderedPair)))"

definition AddIOs ::
  "'ft qt \<Rightarrow> ('cs, 'cset) AbstractConcreteMap \<Rightarrow> 'ft AbstractSymbol list \<Rightarrow>
   'ft AbstractSet list \<Rightarrow> 'cs list \<Rightarrow> 'cset list \<Rightarrow> error + ('cs, 'cset) AbstractConcreteMap" where
  "AddIOs q acm abstractInputs' abstractOutputs' concreteInputs' concreteOutputs' =
     (let abstractOP = \<lparr>abstractInputs = abstractInputs', abstractOutputs = abstractOutputs'\<rparr>;
          concreteOP = \<lparr>concreteInputs = concreteInputs', concreteOutputs = concreteOutputs'\<rparr>
      in AddOPs q acm abstractOP concreteOP)"

text \<open>Modelled from the spec: the sources have no function for the lookup; the spec's
  \<^verbatim>\<open>lookup(abstractPair)\<close> renders the pair to its canonical text and reads the map at
  that key.\<close>

definition lookup ::
  "'ft qt \<Rightarrow> ('cs, 'cset) AbstractConcreteMap \<Rightarrow> 'ft AbstractOrderedPair \<Rightarrow>
   error + ('cs, 'cset) ConcreteOrderedPair option" where
  "lookup q acm abstractOrderedPair =
     (case AbstractOrderedPair_String q abstractOrderedPair of
        Inl e \<Rightarrow> Inl e
      | Inr key \<Rightarrow> Inr (acm key))"

section \<open>Auxiliary definitions for the statements\<close>

text \<open>The tags that some case of the switch in \<^verbatim>\<open>NewFrame\<close> takes.\<close>

definition handled_tag :: "byte \<Rightarrow> bool" where
  "handled_tag t =
     (t = PaddingFrameType \<or> t = ResetStreamType \<or> t = ConnectionCloseType \<or>
      t = ApplicationCloseType \<or> t = MaxDataType \<or> t = MaxStreamDataType \<or>
      t = MaxStreamIdType \<or> t = PingType \<or> t = BlockedType \<or> t = StreamBlockedType \<or>
      t = StreamIdBlockedType \<or> t = NewConnectionIdType \<or> t = StopSendingType \<or>
      t = AckType \<or> t AND StreamType = StreamType)"


text \<open>
  The frames of the eleven variants whose encoder and decoder agree, with fields in their
  valid ranges: a variable-length integer is below \<open>2^62\<close>, a length field is the length
  of the data it counts, a reset token has 16 bytes.
\<close>

fun sound_frame :: "Frame \<Rightarrow> bool" where
  "sound_frame (Frame_Padding f) = (f = 0)"
| "sound_frame (Frame_ResetStream f) = (rs_streamId f < 2 ^ 62 \<and> rs_finalOffset f < 2 ^ 62)"
| "sound_frame (Frame_ConnectionClose f) =
     (cc_reasonPhraseLength f < 2 ^ 62 \<and>
      unat (cc_reasonPhraseLength f) = length (cc_reasonPhrase f))"
| "sound_frame (Frame_MaxStreamData f) =
     (msd_streamId f < 2 ^ 62 \<and> msd_maximumStreamData f < 2 ^ 62)"
| "sound_frame (Frame_MaxStreamId f) = (msi_maximumStreamId f < 2 ^ 62)"
| "sound_frame (Frame_Ping f) = (unat (ping_length f) = length (ping_data f))"
| "sound_frame (Frame_Blocked f) = (bl_offset f < 2 ^ 62)"
| "sound_frame (Frame_StreamBlocked f) = (sb_streamId f < 2 ^ 62 \<and> sb_offset f < 2 ^ 62)"
| "sound_frame (Frame_StreamIdBlocked f) = (sib_streamId f < 2 ^ 62)"
| "sound_frame (Frame_NewConnectionId f) =
     (nci_sequence f < 2 ^ 62 \<and> nci_connectionId f < 2 ^ 62 \<and>
      length (nci_statelessResetToken f) = 16)"
| "sound_frame (Frame_StopSending f) = (ss_streamId f < 2 ^ 62)"
| "sound_frame _ = False"


text \<open>
  A source that ends after \<open>n\<close> bytes: what a reader holds when only the first \<open>n\<close> bytes
  of \<open>buffer\<close> arrived.
\<close>

definition truncate_source :: "nat \<Rightarrow> Reader \<Rightarrow> Reader" where
  "truncate_source n buffer = take n buffer"


text \<open>
  An instance of the parameter \<open>qt\<close> for the evaluations below: a frame type is its
  name, and the zero packet type is none of the six named ones. No evaluation below
  depends on the choice except where \<open>PacketType_zero qt_example\<close> is written out.
\<close>

definition qt_example :: "string qt" where
  "qt_example =
     \<lparr>PacketType_zero = PacketType_other 0, FrameType_String = id, FrameTypeFromString = id\<rparr>"

section \<open>Facts about the frame codec\<close>

lemmas FrameType_defs =
  PaddingFrameType_def ResetStreamType_def ConnectionCloseType_def ApplicationCloseType_def
  MaxDataType_def MaxStreamDataType_def MaxStreamIdType_def PingType_def BlockedType_def
  StreamBlockedType_def StreamIdBlockedType_def NewConnectionIdType_def StopSendingType_def
  PongType_def AckType_def StreamType_def

lemmas Reader_defs =
  ReadByte_def UnreadByte_def ReadVarInt_def Let_def binary_Read_uint16_def
  binary_Read_uint64_def binary_Read_bytes_def Reader_Read_def make_bytes_def

subsection \<open>The dispatcher\<close>


lemma map_prod_Some_eq: "map_prod (Some \<circ> C) id p = (Some f, r) \<longleftrightarrow> f = C (fst p) \<and> r = snd p"
  by (cases p) auto



lemma NewFrame_unhandled:
  assumes "\<not> handled_tag t"
  shows "NewFrame (t # rest) = Inl (UnknownFrameType t)"
  using assms unfolding NewFrame_def ReadByte_def UnreadByte_def handled_tag_def
  by (simp add: Let_def)

lemma le_12_cases: "(t::byte) \<le> 0x0c \<longleftrightarrow> t \<in> {0,1,2,3,4,5,6,7,8,9,10,11,12}"
proof
  assume "t \<le> 0x0c"
  then have "unat t \<le> 12" by (simp add: word_le_nat_alt)
  then have "unat t \<in> {0,1,2,3,4,5,6,7,8,9,10,11,12}" by (simp; arith)
  moreover have "\<And>k. unat t = k \<Longrightarrow> t = word_of_nat k" by auto
  ultimately show "t \<in> {0,1,2,3,4,5,6,7,8,9,10,11,12}"
    by (elim insertE emptyE) force+
next
  assume "t \<in> {0,1,2,3,4,5,6,7,8,9,10,11,12}"
  then show "t \<le> 0x0c" by auto
qed

text \<open>The handled tags are \<open>0x00\<close> to \<open>0x0c\<close>, \<open>0x0e\<close> and every byte with the bit
  \<open>0x10\<close>: \<open>0x0d\<close>, the tag of Pong, is not among them.\<close>

lemma handled_tag_range:
  "handled_tag t \<longleftrightarrow> (t \<le> 0x0c \<or> t = 0x0e \<or> t AND 0x10 = 0x10)"
  unfolding le_12_cases by (auto simp: handled_tag_def FrameType_defs)


subsection \<open>Reads at the end of the source\<close>

lemma ReadVarInt_empty: "ReadVarInt [] = (0, False, [])"
  by (simp add: ReadVarInt_def)

lemma binary_Read_uint16_short: "length buffer < 2 \<Longrightarrow> binary_Read_uint16 buffer old = (old, [])"
  by (simp add: binary_Read_uint16_def)

lemma binary_Read_uint64_short: "length buffer < 8 \<Longrightarrow> binary_Read_uint64 buffer old = (old, [])"
  by (simp add: binary_Read_uint64_def)

lemma binary_Read_bytes_short:
  "length buffer < length old \<Longrightarrow> binary_Read_bytes buffer old = (old, [])"
  by (simp add: binary_Read_bytes_def)

subsection \<open>Variable-length integers are read back\<close>

lemma lt_pow_bitD: "(v::'a::len word) < 2 ^ n \<Longrightarrow> bit v i \<Longrightarrow> i < n"
proof (rule ccontr)
  assume a: "v < 2 ^ n" "bit v i" "\<not> i < n"
  have "v AND mask n = v" using a(1) by (rule less_mask_eq)
  then have "bit v i = bit (v AND mask n) i" by simp
  also have "\<dots> = False" using a(3) by (simp add: bit_and_iff bit_mask_iff)
  finally show False using a(2) by simp
qed

lemma x3f: "(0x3f :: 8 word) = mask 6" by (simp add: mask_eq_exp_minus_1)

lemma ReadVarInt_WriteVarInt_1:
  assumes "(v::64 word) < 0x40"
  shows "ReadVarInt (WriteVarInt [] v @ rest) = (v, True, rest)"
proof -
  have v: "v < 2 ^ 6" using assms by simp
  note nb = lt_pow_bitD [OF v]
  have d: "drop_bit 6 (ucast v :: 8 word) = 0"
    by (rule bit_word_eqI) (auto simp: bit_simps dest: nb)
  have m: "(ucast ((ucast v :: 8 word) AND 0x3f) :: 64 word) = v"
    unfolding x3f
    by (rule bit_word_eqI) (auto simp: bit_simps dest: nb)
  show ?thesis
    using assms by (simp add: WriteVarInt_def ReadVarInt_def d m)
qed

lemma ReadVarInt_WriteVarInt_2:
  assumes "\<not> (v::64 word) < 0x40" "v < 0x4000"
  shows "ReadVarInt (WriteVarInt [] v @ rest) = (v, True, rest)"
proof -
  have v: "v < 2 ^ 14" using assms by simp
  note nb = lt_pow_bitD [OF v]
  let ?w = "(ucast v OR 0x4000) :: 16 word"
  have w: "?w = ucast v OR push_bit 14 1" by simp
  define b0 :: byte where "b0 = ucast (drop_bit 8 ?w)"
  define b1 :: byte where "b1 = ucast ?w"
  have W: "WriteVarInt [] v = [b0, b1]"
    using assms by (simp add: WriteVarInt_def be_bytes16_def b0_def b1_def)
  have d: "drop_bit 6 b0 = 1"
    unfolding b0_def w
    by (rule bit_word_eqI) (simp only: bit_simps comp_apply, auto dest: nb)
  have m: "be_uint [b1] (ucast (b0 AND 0x3f) :: 64 word) = v"
    unfolding b0_def b1_def w x3f be_uint.simps
    by (rule bit_word_eqI) (simp only: bit_simps comp_apply, auto dest: nb)
  show ?thesis
    unfolding W using d m by (simp add: ReadVarInt_def)
qed

lemma ReadVarInt_WriteVarInt_4:
  assumes "\<not> (v::64 word) < 0x4000" "v < 0x40000000"
  shows "ReadVarInt (WriteVarInt [] v @ rest) = (v, True, rest)"
proof -
  have v: "v < 2 ^ 30" using assms by simp
  note nb = lt_pow_bitD [OF v]
  let ?w = "(ucast v OR 0x80000000) :: 32 word"
  have w: "?w = ucast v OR push_bit 31 1" by simp
  define b0 :: byte where "b0 = ucast (drop_bit 24 ?w)"
  define b1 :: byte where "b1 = ucast (drop_bit 16 ?w)"
  define b2 :: byte where "b2 = ucast (drop_bit 8 ?w)"
  define b3 :: byte where "b3 = ucast ?w"
  have lo: "\<not> v < 0x40" using assms(1) by (simp add: word_less_nat_alt)
  have W: "WriteVarInt [] v = [b0, b1, b2, b3]"
    using assms lo by (simp add: WriteVarInt_def be_bytes32_def b0_def b1_def b2_def b3_def)
  have d': "drop_bit 6 b0 = push_bit 1 1"
    unfolding b0_def w
    by (rule bit_word_eqI) (simp only: bit_simps comp_apply, auto dest: nb)
  then have d: "drop_bit 6 b0 = 2" by simp
  have a0: "(ucast (b0 AND mask 6) :: 64 word) = drop_bit 24 v"
    unfolding b0_def w
    by (rule bit_word_eqI) (simp only: bit_simps comp_apply, auto dest: nb)
  have a1: "push_bit 8 (drop_bit 24 v) OR ucast b1 = drop_bit 16 v"
    unfolding b1_def w
    by (rule bit_word_eqI) (simp only: bit_simps comp_apply, auto dest: nb)
  have a2: "push_bit 8 (drop_bit 16 v) OR ucast b2 = drop_bit 8 v"
    unfolding b2_def w
    by (rule bit_word_eqI) (simp only: bit_simps comp_apply, auto dest: nb)
  have a3: "push_bit 8 (drop_bit 8 v) OR ucast b3 = v"
    unfolding b3_def w
    by (rule bit_word_eqI) (simp only: bit_simps comp_apply, auto dest: nb)
  have m: "be_uint [b1, b2, b3] (ucast (b0 AND 0x3f) :: 64 word) = v"
    unfolding x3f be_uint.simps a0 a1 a2 a3 by (rule refl)
  show ?thesis
    unfolding W using d m by (simp add: ReadVarInt_def)
qed

lemma ReadVarInt_WriteVarInt_8:
  assumes "\<not> (v::64 word) < 0x40000000" "v < 2 ^ 62"
  shows "ReadVarInt (WriteVarInt [] v @ rest) = (v, True, rest)"
proof -
  note nb = lt_pow_bitD [OF assms(2)]
  let ?w = "(v OR 0xC000000000000000) :: 64 word"
  have w: "?w = v OR (push_bit 63 1 OR push_bit 62 1)" by simp
  define b0 :: byte where "b0 = ucast (drop_bit 56 ?w)"
  define b1 :: byte where "b1 = ucast (drop_bit 48 ?w)"
  define b2 :: byte where "b2 = ucast (drop_bit 40 ?w)"
  define b3 :: byte where "b3 = ucast (drop_bit 32 ?w)"
  define b4 :: byte where "b4 = ucast (drop_bit 24 ?w)"
  define b5 :: byte where "b5 = ucast (drop_bit 16 ?w)"
  define b6 :: byte where "b6 = ucast (drop_bit 8 ?w)"
  define b7 :: byte where "b7 = ucast ?w"
  have lo: "\<not> v < 0x40" "\<not> v < 0x4000" using assms(1) by (simp_all add: word_less_nat_alt)
  have W: "WriteVarInt [] v = [b0, b1, b2, b3, b4, b5, b6, b7]"
    using assms lo
    by (simp add: WriteVarInt_def be_bytes64_def b0_def b1_def b2_def b3_def b4_def b5_def
        b6_def b7_def)
  have d': "drop_bit 6 b0 = push_bit 1 1 OR 1"
    unfolding b0_def w
    by (rule bit_word_eqI) (simp only: bit_simps comp_apply, auto dest: nb)
  then have d: "drop_bit 6 b0 = 3" by simp
  have a0: "(ucast (b0 AND mask 6) :: 64 word) = drop_bit 56 v"
    unfolding b0_def w
    by (rule bit_word_eqI) (simp only: bit_simps comp_apply, auto dest: nb)
  have a1: "push_bit 8 (drop_bit 56 v) OR ucast b1 = drop_bit 48 v"
    unfolding b1_def w
    by (rule bit_word_eqI) (simp only: bit_simps comp_apply, auto dest: nb)
  have a2: "push_bit 8 (drop_bit 48 v) OR ucast b2 = drop_bit 40 v"
    unfolding b2_def w
    by (rule bit_word_eqI) (simp only: bit_simps comp_apply, auto dest: nb)
  have a3: "push_bit 8 (drop_bit 40 v) OR ucast b3 = drop_bit 32 v"
    unfolding b3_def w
    by (rule bit_word_eqI) (simp only: bit_simps comp_apply, auto dest: nb)
  have a4: "push_bit 8 (drop_bit 32 v) OR ucast b4 = drop_bit 24 v"
    unfolding b4_def w
    by (rule bit_word_eqI) (simp only: bit_simps comp_apply, auto dest: nb)
  have a5: "push_bit 8 (drop_bit 24 v) OR ucast b5 = drop_bit 16 v"
    unfolding b5_def w
    by (rule bit_word_eqI) (simp only: bit_simps comp_apply, auto dest: nb)
  have a6: "push_bit 8 (drop_bit 16 v) OR ucast b6 = drop_bit 8 v"
    unfolding b6_def w
    by (rule bit_word_eqI) (simp only: bit_simps comp_apply, auto dest: nb)
  have a7: "push_bit 8 (drop_bit 8 v) OR ucast b7 = v"
    unfolding b7_def w
    by (rule bit_word_eqI) (simp only: bit_simps comp_apply, auto dest: nb)
  have m: "be_uint [b1, b2, b3, b4, b5, b6, b7] (ucast (b0 AND 0x3f) :: 64 word) = v"
    unfolding x3f be_uint.simps a0 a1 a2 a3 a4 a5 a6 a7 by (rule refl)
  show ?thesis
    unfolding W using d m by (simp add: ReadVarInt_def)
qed

lemma ReadVarInt_WriteVarInt:
  assumes "v < 2 ^ 62"
  shows "ReadVarInt (WriteVarInt [] v @ rest) = (v, True, rest)"
  using ReadVarInt_WriteVarInt_1 [of v rest] ReadVarInt_WriteVarInt_2 [of v rest] ReadVarInt_WriteVarInt_4 [of v rest] ReadVarInt_WriteVarInt_8 [of v rest] assms by blast


lemma WriteVarInt_append: "WriteVarInt buffer v = buffer @ WriteVarInt [] v"
  by (simp add: WriteVarInt_def)

lemma be_uint_be_bytes16: "be_uint (be_bytes16 e) 0 = e"
  unfolding be_bytes16_def be_uint.simps
  by (rule bit_word_eqI) (simp only: bit_simps comp_apply, auto)

lemma binary_Read_uint16_be_bytes16:
  "binary_Read_uint16 (be_bytes16 e @ rest) old = (e, rest)"
proof -
  have "take 2 (be_bytes16 e @ rest) = be_bytes16 e" "drop 2 (be_bytes16 e @ rest) = rest"
    by (simp_all add: be_bytes16_def)
  then show ?thesis
    by (simp add: binary_Read_uint16_def be_uint_be_bytes16) (simp add: be_bytes16_def)
qed


subsection \<open>The variants that are decoded as they were encoded\<close>

lemma NewFrame_tag:
  "NewFrame (0x00 # r) = Inr (map_prod (Some \<circ> Frame_Padding) id (NewPaddingFrame (0x00 # r)))"
  "NewFrame (0x01 # r) = Inr (map_prod (Some \<circ> Frame_ResetStream) id (NewResetStream (0x01 # r)))"
  "NewFrame (0x02 # r) = Inr (map_prod (Some \<circ> Frame_ConnectionClose) id (NewConnectionCloseFrame (0x02 # r)))"
  "NewFrame (0x05 # r) = Inr (map_prod (Some \<circ> Frame_MaxStreamData) id (NewMaxStreamDataFrame (0x05 # r)))"
  "NewFrame (0x06 # r) = Inr (map_prod (Some \<circ> Frame_MaxStreamId) id (NewMaxStreamIdFrame (0x06 # r)))"
  "NewFrame (0x07 # r) = Inr (map_prod (Some \<circ> Frame_Ping) id (NewPingFrame (0x07 # r)))"
  "NewFrame (0x08 # r) = Inr (map_prod (Some \<circ> Frame_Blocked) id (NewBlockedFrame (0x08 # r)))"
  "NewFrame (0x09 # r) = Inr (map_prod (Some \<circ> Frame_StreamBlocked) id (NewStreamBlockedFrame (0x09 # r)))"
  "NewFrame (0x0a # r) = Inr (map_prod (Some \<circ> Frame_StreamIdBlocked) id (NewStreamIdNeededFrame (0x0a # r)))"
  "NewFrame (0x0b # r) = Inr (map_prod (Some \<circ> Frame_NewConnectionId) id (NewNewConnectionIdFrame (0x0b # r)))"
  "NewFrame (0x0c # r) = Inr (map_prod (Some \<circ> Frame_StopSending) id (NewStopSendingFrame (0x0c # r)))"
  by (simp_all add: NewFrame_def ReadByte_def UnreadByte_def FrameType_defs)

lemma rt_ResetStream:
  assumes "rs_streamId f < 2 ^ 62" "rs_finalOffset f < 2 ^ 62"
  shows "NewResetStream (ResetStream_writeTo f [] @ rest) = (f, rest)"
proof -
  have "ResetStream_writeTo f [] @ rest =
      0x01 # WriteVarInt [] (rs_streamId f) @ be_bytes16 (rs_errorCode f) @
        WriteVarInt [] (rs_finalOffset f) @ rest"
    by (simp add: ResetStream_writeTo_def Let_def FrameType_defs
        WriteVarInt_append [of "_ # _"] WriteVarInt_append [of "_ @ _"])
  then show ?thesis
    by (simp add: NewResetStream_def ReadByte_def ReadVarInt_WriteVarInt [OF assms(1)]
        ReadVarInt_WriteVarInt [OF assms(2)] binary_Read_uint16_be_bytes16)
qed


lemmas WriteVarInt_norm = WriteVarInt_append [of "_ # _"] WriteVarInt_append [of "_ @ _"]

lemma binary_Read_bytes_exact:
  "length old = length bs \<Longrightarrow> binary_Read_bytes (bs @ rest) old = (bs, rest)"
  by (simp add: binary_Read_bytes_def)

lemma Reader_Read_exact:
  "length data = length bs \<Longrightarrow> Reader_Read (bs @ rest) data = (bs, rest)"
  by (simp add: Reader_Read_def)

lemma rt_ConnectionClose:
  assumes "cc_reasonPhraseLength f < 2 ^ 62"
    "unat (cc_reasonPhraseLength f) = length (cc_reasonPhrase f)"
  shows "NewConnectionCloseFrame (ConnectionCloseFrame_writeTo f [] @ rest) = (f, rest)"
proof (cases "cc_reasonPhraseLength f > 0")
  case True
  then show ?thesis
    using assms(2)
    by (simp add: ConnectionCloseFrame_writeTo_def NewConnectionCloseFrame_def Let_def
        FrameType_defs ReadByte_def WriteVarInt_norm ReadVarInt_WriteVarInt [OF assms(1)]
        binary_Read_uint16_be_bytes16 binary_Read_bytes_exact make_bytes_def)
next
  case False
  then have z: "cc_reasonPhraseLength f = 0" by (simp add: word_greater_zero_iff)
  then have "cc_reasonPhrase f = []" using assms(2) by simp
  with z have f: "f = \<lparr>cc_errorCode = cc_errorCode f, cc_reasonPhraseLength = 0, cc_reasonPhrase = []\<rparr>"
    by (cases f) simp
  show ?thesis
    using z assms(1)
    by (subst (2) f, subst f)
      (simp add: ConnectionCloseFrame_writeTo_def NewConnectionCloseFrame_def Let_def
        FrameType_defs ReadByte_def WriteVarInt_norm ReadVarInt_WriteVarInt
        binary_Read_uint16_be_bytes16)
qed

lemma rt_MaxStreamData:
  assumes "msd_streamId f < 2 ^ 62" "msd_maximumStreamData f < 2 ^ 62"
  shows "NewMaxStreamDataFrame (MaxStreamDataFrame_writeTo f [] @ rest) = (f, rest)"
  by (simp add: MaxStreamDataFrame_writeTo_def NewMaxStreamDataFrame_def Let_def FrameType_defs
      ReadByte_def WriteVarInt_norm ReadVarInt_WriteVarInt [OF assms(1)]
      ReadVarInt_WriteVarInt [OF assms(2)])

lemma rt_MaxStreamId:
  assumes "msi_maximumStreamId f < 2 ^ 62"
  shows "NewMaxStreamIdFrame (MaxStreamIdFrame_writeTo f [] @ rest) = (f, rest)"
  by (simp add: MaxStreamIdFrame_writeTo_def NewMaxStreamIdFrame_def Let_def FrameType_defs
      ReadByte_def WriteVarInt_norm ReadVarInt_WriteVarInt [OF assms(1)])

lemma rt_Ping:
  assumes "unat (ping_length f) = length (ping_data f)"
  shows "NewPingFrame (PingFrame_writeTo f [] @ rest) = (f, rest)"
proof (cases "ping_length f > 0")
  case True
  then show ?thesis
    using assms
    by (simp add: PingFrame_writeTo_def NewPingFrame_def Let_def FrameType_defs ReadByte_def
        Reader_Read_exact make_bytes_def)
next
  case False
  then have z: "ping_length f = 0" by (simp add: word_greater_zero_iff)
  then have "ping_data f = []" using assms by simp
  with z have f: "f = \<lparr>ping_length = 0, ping_data = []\<rparr>" by (cases f) simp
  show ?thesis
    by (subst (2) f, subst f)
      (simp add: PingFrame_writeTo_def NewPingFrame_def Let_def FrameType_defs ReadByte_def)
qed

lemma rt_Blocked:
  assumes "bl_offset f < 2 ^ 62"
  shows "NewBlockedFrame (BlockedFrame_writeTo f [] @ rest) = (f, rest)"
  by (simp add: BlockedFrame_writeTo_def NewBlockedFrame_def Let_def FrameType_defs
      ReadByte_def WriteVarInt_norm ReadVarInt_WriteVarInt [OF assms(1)])

lemma rt_StreamBlocked:
  assumes "sb_streamId f < 2 ^ 62" "sb_offset f < 2 ^ 62"
  shows "NewStreamBlockedFrame (StreamBlockedFrame_writeTo f [] @ rest) = (f, rest)"
  by (simp add: StreamBlockedFrame_writeTo_def NewStreamBlockedFrame_def Let_def FrameType_defs
      ReadByte_def WriteVarInt_norm ReadVarInt_WriteVarInt [OF assms(1)]
      ReadVarInt_WriteVarInt [OF assms(2)])

lemma rt_StreamIdBlocked:
  assumes "sib_streamId f < 2 ^ 62"
  shows "NewStreamIdNeededFrame (StreamIdBlockedFrame_writeTo f [] @ rest) = (f, rest)"
  by (simp add: StreamIdBlockedFrame_writeTo_def NewStreamIdNeededFrame_def Let_def
      FrameType_defs ReadByte_def WriteVarInt_norm ReadVarInt_WriteVarInt [OF assms(1)])

lemma rt_NewConnectionId:
  assumes "nci_sequence f < 2 ^ 62" "nci_connectionId f < 2 ^ 62"
    "length (nci_statelessResetToken f) = 16"
  shows "NewNewConnectionIdFrame (NewConnectionIdFrame_writeTo f [] @ rest) = (f, rest)"
  using assms(3)
  by (simp add: NewConnectionIdFrame_writeTo_def NewNewConnectionIdFrame_def Let_def
      FrameType_defs ReadByte_def WriteVarInt_norm ReadVarInt_WriteVarInt [OF assms(1)]
      ReadVarInt_WriteVarInt [OF assms(2)] binary_Read_bytes_exact make_bytes_def)

lemma rt_StopSending:
  assumes "ss_streamId f < 2 ^ 62"
  shows "NewStopSendingFrame (StopSendingFrame_writeTo f [] @ rest) = (f, rest)"
  by (simp add: StopSendingFrame_writeTo_def NewStopSendingFrame_def Let_def FrameType_defs
      ReadByte_def WriteVarInt_norm ReadVarInt_WriteVarInt [OF assms(1)]
      binary_Read_uint16_be_bytes16)


lemma rt_Padding: "f = 0 \<Longrightarrow> NewPaddingFrame (PaddingFrame_writeTo f [] @ rest) = (f, rest)"
  by (simp add: PaddingFrame_writeTo_def NewPaddingFrame_def ReadByte_def)

lemma writeTo_head:
  "\<exists>bs. PaddingFrame_writeTo f1 [] = 0x00 # bs"
  "\<exists>bs. ResetStream_writeTo f2 [] = 0x01 # bs"
  "\<exists>bs. ConnectionCloseFrame_writeTo f3 [] = 0x02 # bs"
  "\<exists>bs. MaxStreamDataFrame_writeTo f4 [] = 0x05 # bs"
  "\<exists>bs. MaxStreamIdFrame_writeTo f5 [] = 0x06 # bs"
  "\<exists>bs. PingFrame_writeTo f6 [] = 0x07 # bs"
  "\<exists>bs. BlockedFrame_writeTo f7 [] = 0x08 # bs"
  "\<exists>bs. StreamBlockedFrame_writeTo f8 [] = 0x09 # bs"
  "\<exists>bs. StreamIdBlockedFrame_writeTo f9 [] = 0x0a # bs"
  "\<exists>bs. NewConnectionIdFrame_writeTo f10 [] = 0x0b # bs"
  "\<exists>bs. StopSendingFrame_writeTo f11 [] = 0x0c # bs"
  by (simp_all add: PaddingFrame_writeTo_def ResetStream_writeTo_def
      ConnectionCloseFrame_writeTo_def MaxStreamDataFrame_writeTo_def
      MaxStreamIdFrame_writeTo_def PingFrame_writeTo_def BlockedFrame_writeTo_def
      StreamBlockedFrame_writeTo_def StreamIdBlockedFrame_writeTo_def
      NewConnectionIdFrame_writeTo_def StopSendingFrame_writeTo_def Let_def FrameType_defs
      WriteVarInt_norm)

lemma decode_encode_sound_frame:
  assumes "sound_frame f"
  shows "NewFrame (writeTo f [] @ rest) = Inr (Some f, rest)"
proof (cases f)
  case (Frame_Padding x)
  obtain bs where bs: "PaddingFrame_writeTo x [] = 0x00 # bs"
    using writeTo_head(1) by blast
  have "NewPaddingFrame (PaddingFrame_writeTo x [] @ rest) = (x, rest)"
    using assms Frame_Padding by (intro rt_Padding) simp_all
  then show ?thesis
    using NewFrame_tag(1) [of "bs @ rest"] by (simp add: Frame_Padding bs)
  next
  case (Frame_ResetStream x)
  obtain bs where bs: "ResetStream_writeTo x [] = 0x01 # bs"
    using writeTo_head(2) by blast
  have "NewResetStream (ResetStream_writeTo x [] @ rest) = (x, rest)"
    using assms Frame_ResetStream by (intro rt_ResetStream) simp_all
  then show ?thesis
    using NewFrame_tag(2) [of "bs @ rest"] by (simp add: Frame_ResetStream bs)
  next
  case (Frame_ConnectionClose x)
  obtain bs where bs: "ConnectionCloseFrame_writeTo x [] = 0x02 # bs"
    using writeTo_head(3) by blast
  have "NewConnectionCloseFrame (ConnectionCloseFrame_writeTo x [] @ rest) = (x, rest)"
    using assms Frame_ConnectionClose by (intro rt_ConnectionClose) simp_all
  then show ?thesis
    using NewFrame_tag(3) [of "bs @ rest"] by (simp add: Frame_ConnectionClose bs)
  next
  case (Frame_MaxStreamData x)
  obtain bs where bs: "MaxStreamDataFrame_writeTo x [] = 0x05 # bs"
    using writeTo_head(4) by blast
  have "NewMaxStreamDataFrame (MaxStreamDataFrame_writeTo x [] @ rest) = (x, rest)"
    using assms Frame_MaxStreamData by (intro rt_MaxStreamData) simp_all
  then show ?thesis
    using NewFrame_tag(4) [of "bs @ rest"] by (simp add: Frame_MaxStreamData bs)
  next
  case (Frame_MaxStreamId x)
  obtain bs where bs: "MaxStreamIdFrame_writeTo x [] = 0x06 # bs"
    using writeTo_head(5) by blast
  have "NewMaxStreamIdFrame (MaxStreamIdFrame_writeTo x [] @ rest) = (x, rest)"
    using assms Frame_MaxStreamId by (intro rt_MaxStreamId) simp_all
  then show ?thesis
    using NewFrame_tag(5) [of "bs @ rest"] by (simp add: Frame_MaxStreamId bs)
  next
  case (Frame_Ping x)
  obtain bs where bs: "PingFrame_writeTo x [] = 0x07 # bs"
    using writeTo_head(6) by blast
  have "NewPingFrame (PingFrame_writeTo x [] @ rest) = (x, rest)"
    using assms Frame_Ping by (intro rt_Ping) simp_all
  then show ?thesis
    using NewFrame_tag(6) [of "bs @ rest"] by (simp add: Frame_Ping bs)
  next
  case (Frame_Blocked x)
  obtain bs where bs: "BlockedFrame_writeTo x [] = 0x08 # bs"
    using writeTo_head(7) by blast
  have "NewBlockedFrame (BlockedFrame_writeTo x [] @ rest) = (x, rest)"
    using assms Frame_Blocked by (intro rt_Blocked) simp_all
  then show ?thesis
    using NewFrame_tag(7) [of "bs @ rest"] by (simp add: Frame_Blocked bs)
  next
  case (Frame_StreamBlocked x)
  obtain bs where bs: "StreamBlockedFrame_writeTo x [] = 0x09 # bs"
    using writeTo_head(8) by blast
  have "NewStreamBlockedFrame (StreamBlockedFrame_writeTo x [] @ rest) = (x, rest)"
    using assms Frame_StreamBlocked by (intro rt_StreamBlocked) simp_all
  then show ?thesis
    using NewFrame_tag(8) [of "bs @ rest"] by (simp add: Frame_StreamBlocked bs)
  next
  case (Frame_StreamIdBlocked x)
  obtain bs where bs: "StreamIdBlockedFrame_writeTo x [] = 0x0a # bs"
    using writeTo_head(9) by blast
  have "NewStreamIdNeededFrame (StreamIdBlockedFrame_writeTo x [] @ rest) = (x, rest)"
    using assms Frame_StreamIdBlocked by (intro rt_StreamIdBlocked) simp_all
  then show ?thesis
    using NewFrame_tag(9) [of "bs @ rest"] by (simp add: Frame_StreamIdBlocked bs)
  next
  case (Frame_NewConnectionId x)
  obtain bs where bs: "NewConnectionIdFrame_writeTo x [] = 0x0b # bs"
    using writeTo_head(10) by blast
  have "NewNewConnectionIdFrame (NewConnectionIdFrame_writeTo x [] @ rest) = (x, rest)"
    using assms Frame_NewConnectionId by (intro rt_NewConnectionId) simp_all
  then show ?thesis
    using NewFrame_tag(10) [of "bs @ rest"] by (simp add: Frame_NewConnectionId bs)
  next
  case (Frame_StopSending x)
  obtain bs where bs: "StopSendingFrame_writeTo x [] = 0x0c # bs"
    using writeTo_head(11) by blast
  have "NewStopSendingFrame (StopSendingFrame_writeTo x [] @ rest) = (x, rest)"
    using assms Frame_StopSending by (intro rt_StopSending) simp_all
  then show ?thesis
    using NewFrame_tag(11) [of "bs @ rest"] by (simp add: Frame_StopSending bs)
qed (use assms in simp_all)

subsection \<open>An encoded frame cut short\<close>


lemma truncate_source_Nil [simp]: "truncate_source k [] = []"
  by (simp add: truncate_source_def)



























subsection \<open>The stream decoder stores no payload\<close>

lemma ReadStreamFrame_streamData: "streamData (fst (ReadStreamFrame buffer)) = []"
  by (simp add: ReadStreamFrame_def Let_def split: prod.splits)

subsection \<open>The ack decoder drops the first block\<close>

lemma read_ackBlocks_length:
  "read_ackBlocks n buffer blocks = (bs, r) \<Longrightarrow> length bs = length blocks + n"
  by (induction n arbitrary: buffer blocks) (auto simp: Let_def split: prod.splits)

lemma ReadAckFrame_length:
  "length (ackBlocks (fst (ReadAckFrame buffer))) = unat (ackBlockCount (fst (ReadAckFrame buffer)))"
  by (auto simp: ReadAckFrame_def Let_def split: prod.splits dest: read_ackBlocks_length)

subsection \<open>The variants that are never decoded as they were encoded\<close>

text \<open>
  An ack frame written with its first block (one block more than the count says), a
  stream frame with a payload and a pong frame are not decoded back, whatever follows
  them in the source.
\<close>

lemma AckFrame_writeTo_head: "\<exists>bs. AckFrame_writeTo f [] = 0x0e # bs"
proof -
  have "\<And>i acks buf. \<exists>bs. write_ackBlocks i acks (0x0e # buf) = 0x0e # bs"
  proof -
    fix i acks buf show "\<exists>bs. write_ackBlocks i acks (0x0e # buf) = 0x0e # bs"
      by (induction acks arbitrary: i buf) (auto simp: Let_def WriteVarInt_norm)
  qed
  then show ?thesis
    by (simp add: AckFrame_writeTo_def Let_def FrameType_defs WriteVarInt_norm)
qed

lemma decode_encode_Ack_first_block:
  assumes "length (ackBlocks f) \<noteq> unat (ackBlockCount f)"
  shows "NewFrame (writeTo (Frame_Ack f) [] @ rest) \<noteq> Inr (Some (Frame_Ack f), r)"
proof
  assume a: "NewFrame (writeTo (Frame_Ack f) [] @ rest) = Inr (Some (Frame_Ack f), r)"
  obtain bs where bs: "AckFrame_writeTo f [] = 0x0e # bs"
    using AckFrame_writeTo_head by blast
  have "NewFrame (0x0e # bs @ rest) =
      Inr (map_prod (Some \<circ> Frame_Ack) id (ReadAckFrame (0x0e # bs @ rest)))"
    by (simp add: NewFrame_def ReadByte_def UnreadByte_def FrameType_defs)
  with a bs have "fst (ReadAckFrame (0x0e # bs @ rest)) = f"
    by (simp add: map_prod_Some_eq)
  then show False using ReadAckFrame_length [of "0x0e # bs @ rest"] assms by simp
qed

lemma StreamFrame_writeTo_head:
  "\<exists>t bs. StreamFrame_writeTo f [] = t # bs \<and> t \<in> {0x10, 0x11, 0x12, 0x13, 0x14, 0x15, 0x16, 0x17}"
  by (cases "finBit f"; cases "lenBit f"; cases "offBit f")
    (simp_all add: StreamFrame_writeTo_def Let_def FrameType_defs WriteVarInt_norm)

lemma NewFrame_stream_tag:
  assumes "t \<in> {0x10, 0x11, 0x12, 0x13, 0x14, 0x15, 0x16, 0x17}"
  shows "NewFrame (t # bs) = Inr (map_prod (Some \<circ> Frame_Stream) id (ReadStreamFrame (t # bs)))"
  using assms
  by (elim insertE emptyE) (simp_all add: NewFrame_def ReadByte_def UnreadByte_def FrameType_defs)

lemma decode_encode_Stream_payload:
  assumes "streamData f \<noteq> []"
  shows "NewFrame (writeTo (Frame_Stream f) [] @ rest) \<noteq> Inr (Some (Frame_Stream f), r)"
proof
  assume a: "NewFrame (writeTo (Frame_Stream f) [] @ rest) = Inr (Some (Frame_Stream f), r)"
  obtain t bs where bs: "StreamFrame_writeTo f [] = t # bs"
    and t: "t \<in> {0x10, 0x11, 0x12, 0x13, 0x14, 0x15, 0x16, 0x17}"
    using StreamFrame_writeTo_head by blast
  from a bs NewFrame_stream_tag [OF t, of "bs @ rest"]
  have "fst (ReadStreamFrame (t # bs @ rest)) = f"
    by (simp add: map_prod_Some_eq)
  then show False using ReadStreamFrame_streamData [of "t # bs @ rest"] assms by simp
qed

lemma decode_encode_Pong_never:
  "NewFrame (writeTo (Frame_Pong f) [] @ rest) \<noteq> Inr (Some (Frame_Pong f), r)"
proof -
  obtain bs where bs: "PingFrame_writeTo (PingFrame f) [] = 0x07 # bs"
    using writeTo_head(6) by blast
  then show ?thesis
    using NewFrame_tag(6) [of "bs @ rest"]
    by (simp add: PongFrame_writeTo_def map_prod_Some_eq)
qed

section \<open>Facts about the adapter\<close>

lemmas regex_defs =
  FindStringSubmatch_def match_header_def match_frames_def is_upper_def is_header_char_def
  is_frames_char_def

lemma index_Nil: "index [] i = Inl IndexOutOfRange"
  by (simp add: index_def)

lemma parse_no_match:
  "FindStringSubmatch message = [] \<Longrightarrow>
   NewAbstractSymbolFromString q message = Inl IndexOutOfRange"
  by (simp add: NewAbstractSymbolFromString_def index_Nil)

lemma not_upper_bracket: "\<not> is_upper CHR ''[''" "\<not> is_frames_char CHR '']''"
  by (simp_all add: is_upper_def is_frames_char_def)

lemma takeWhile_all: "\<forall>c\<in>set p. P c \<Longrightarrow> \<not> P d \<Longrightarrow> takeWhile P (p @ d # r) = p"
  by (induction p) auto

lemma dropWhile_all: "\<forall>c\<in>set p. P c \<Longrightarrow> \<not> P d \<Longrightarrow> dropWhile P (p @ d # r) = d # r"
  by (induction p) auto

lemma FindStringSubmatch_no_header:
  assumes "p \<noteq> []" "\<forall>c\<in>set p. is_upper c" "f \<noteq> []" "\<forall>c\<in>set f. is_frames_char c"
  shows "FindStringSubmatch (p @ ''['' @ f @ '']'') = [p @ ''['' @ f @ '']'', p, [], [], f]"
  using assms
  by (simp add: FindStringSubmatch_def match_frames_def takeWhile_all dropWhile_all
      not_upper_bracket Let_def)

lemma frameSplice_loop_threadSafe:
  "\<exists>ys. frameSplice_loop q xs (threadSafeSet zs) = Inr (threadSafeSet ys) \<and>
        set ys = set zs \<union> FrameTypeFromString q ` set xs"
proof (induction xs arbitrary: zs)
  case Nil
  then show ?case by simp
next
  case (Cons x xs)
  let ?zs = "if FrameTypeFromString q x \<in> set zs then zs else zs @ [FrameTypeFromString q x]"
  obtain ys where "frameSplice_loop q xs (threadSafeSet ?zs) = Inr (threadSafeSet ys)"
    and "set ys = set ?zs \<union> FrameTypeFromString q ` set xs"
    using Cons.IH [of ?zs] by blast
  then show ?case by (intro exI [of _ ys]) auto
qed

lemma parse_no_header:
  assumes "p \<noteq> []" "\<forall>c\<in>set p. is_upper c" "f \<noteq> []" "\<forall>c\<in>set f. is_frames_char c"
  shows "\<exists>ys. NewAbstractSymbolFromString q (p @ ''['' @ f @ '']'') =
           Inr \<lparr>packetType = stringToPacketType q p, headerOptions = \<lparr>QUICVersion = None\<rparr>,
                frameTypes = threadSafeSet ys\<rparr>
         \<and> set ys = FrameTypeFromString q ` set (Split f CHR '','')"
proof -
  obtain ys where ys:
    "frameSplice_loop q (Split f CHR '','') (threadSafeSet []) = Inr (threadSafeSet ys)"
    "set ys = FrameTypeFromString q ` set (Split f CHR '','')"
    using frameSplice_loop_threadSafe [of q "Split f CHR '',''" "[]"] by auto
  have "NewAbstractSymbolFromString q (p @ ''['' @ f @ '']'') =
           Inr \<lparr>packetType = stringToPacketType q p, headerOptions = \<lparr>QUICVersion = None\<rparr>,
                frameTypes = threadSafeSet ys\<rparr>"
    unfolding NewAbstractSymbolFromString_def FindStringSubmatch_no_header [OF assms]
    using ys
    by (simp add: index_def parse_headerOptions_def NewSet_def NewAbstractSymbol_def)
  then show ?thesis using ys(2) by blast
qed

subsection \<open>The text of a symbol does not depend on how its set is enumerated\<close>

lemma sort_remdups_cong:
  assumes "set xs = set ys"
  shows "sort (map f (remdups xs)) = sort (map f (remdups ys))"
proof -
  have "mset (remdups xs) = mset (remdups ys)"
    using assms by (simp add: set_eq_iff_mset_remdups_eq)
  then have "mset (map f (remdups xs)) = mset (map f (remdups ys))" by (metis mset_map)
  then show ?thesis by (metis properties_for_sort sorted_sort mset_sort)
qed

lemma frameStrings_loop_map: "frameStrings_loop q xs acc = acc @ map (FrameType_String q) xs"
  by (induction xs arbitrary: acc) auto

lemma AbstractSymbol_String_order:
  assumes "set xs = set ys"
  shows "AbstractSymbol_String q (as\<lparr>frameTypes := threadSafeSet xs\<rparr>) =
         AbstractSymbol_String q (as\<lparr>frameTypes := threadSafeSet ys\<rparr>)"
  using sort_remdups_cong [OF assms, of "FrameType_String q"]
  by (simp add: AbstractSymbol_String_def frameStrings_loop_map sort_Strings_def)

subsection \<open>The text of a set\<close>

lemma AbstractSet_String_empty: "AbstractSet_String q (AbstractSet (threadSafeSet [])) = Inr ''[]''"
  by (simp add: AbstractSet_String_def)

lemma AbstractSet_String_nonempty:
  assumes "xs \<noteq> []"
  shows "\<exists>e. AbstractSet_String q (AbstractSet (threadSafeSet xs)) = Inl e"
proof -
  obtain y ys where r: "remdups xs = y # ys"
    using assms by (cases "remdups xs") auto
  then have "stringSlice_loop q 0 (remdups xs) [] = Inl IndexOutOfRange \<or>
    (\<exists>e. AbstractSymbol_String q y = Inl e \<and> stringSlice_loop q 0 (remdups xs) [] = Inl e)"
    by (auto simp: assign_index_def split: sum.splits)
  then show ?thesis using r
    by (auto simp: AbstractSet_String_def)
qed

subsection \<open>The map, when the key can be rendered\<close>

lemma AddIOs_lookup:
  assumes "AddIOs q acm ai ao ci co = Inr acm'"
    and "AbstractOrderedPair_String q p =
         AbstractOrderedPair_String q \<lparr>abstractInputs = ai, abstractOutputs = ao\<rparr>"
  shows "lookup q acm' p = Inr (Some \<lparr>concreteInputs = ci, concreteOutputs = co\<rparr>)"
  using assms
  by (auto simp: AddIOs_def AddOPs_def lookup_def split: sum.splits)

lemma AddIOs_other_keys:
  assumes "AddIOs q acm ai ao ci co = Inr acm'"
    and "AbstractOrderedPair_String q \<lparr>abstractInputs = ai, abstractOutputs = ao\<rparr> = Inr key"
    and "k \<noteq> key"
  shows "acm' k = acm k"
  using assms
  by (auto simp: AddIOs_def AddOPs_def split: sum.splits)

lemma AddIOs_fails:
  assumes "AbstractOrderedPair_String q \<lparr>abstractInputs = ai, abstractOutputs = ao\<rparr> = Inl e"
  shows "AddIOs q acm ai ao ci co = Inl e"
  using assms by (simp add: AddIOs_def AddOPs_def)

text \<open>The key cannot be rendered, and nothing is stored, as soon as one output set has a
  member.\<close>

lemma aoStringSlice_loop_fails:
  assumes "AbstractSet (threadSafeSet xs) \<in> set ao" "xs \<noteq> []"
  shows "\<exists>e. aoStringSlice_loop q ao acc = Inl e"
  using assms
proof (induction ao arbitrary: acc)
  case Nil
  then show ?case by simp
next
  case (Cons a ao)
  show ?case
  proof (cases "AbstractSet_String q a")
    case (Inl e)
    then show ?thesis by simp
  next
    case (Inr str)
    with Cons.prems AbstractSet_String_nonempty [of xs q]
    have "AbstractSet (threadSafeSet xs) \<in> set ao" by auto
    then show ?thesis using Cons.IH Cons.prems(2) Inr by simp
  qed
qed

lemma AddIOs_nonempty_fails:
  assumes "AbstractSet (threadSafeSet xs) \<in> set ao" "xs \<noteq> []"
  shows "\<exists>e. AddIOs q acm ai ao ci co = Inl e"
proof -
  obtain e where "aoStringSlice_loop q ao [] = Inl e"
    using aoStringSlice_loop_fails [OF assms] by blast
  then show ?thesis
    by (auto simp: AddIOs_def AddOPs_def AbstractOrderedPair_String_def Let_def split: sum.splits)
qed

lemma Split_no_sep: "sep \<notin> set s \<Longrightarrow> Split s sep = [s]"
  by (induction s) auto

lemma header_char_facts:
  "\<not> is_upper CHR ''(''" "\<not> is_header_char CHR '')''" "\<not> is_header_char CHR '',''"
  by (simp_all add: is_upper_def is_header_char_def)

lemma FindStringSubmatch_header:
  assumes "p \<noteq> []" "\<forall>c\<in>set p. is_upper c" "h \<noteq> []" "\<forall>c\<in>set h. is_header_char c"
    "f \<noteq> []" "\<forall>c\<in>set f. is_frames_char c"
  shows "FindStringSubmatch (p @ ''('' @ h @ '')['' @ f @ '']'') =
         [p @ ''('' @ h @ '')['' @ f @ '']'', p, ''('' @ h @ '')'', h, f]"
  using assms
  by (simp add: FindStringSubmatch_def match_header_def match_frames_def takeWhile_all
      dropWhile_all not_upper_bracket header_char_facts Let_def)

lemma parse_headerOptions_header:
  assumes "h \<noteq> []" "\<forall>c\<in>set h. is_header_char c"
  shows "parse_headerOptions h =
     (if length h < 2 then Inl SliceBoundsOutOfRange
      else Inr \<lparr>QUICVersion = ParseUint_16_32 (drop 2 h)\<rparr>)"
proof -
  have "CHR '','' \<notin> set h" using assms(2) header_char_facts(3) by blast
  then have "Split h CHR '','' = [h]" by (rule Split_no_sep)
  then show ?thesis using assms(1)
    by (auto simp: parse_headerOptions_def index_def slice_from_def Let_def split: option.splits)
qed

lemma parse_header:
  assumes "p \<noteq> []" "\<forall>c\<in>set p. is_upper c" "h \<noteq> []" "\<forall>c\<in>set h. is_header_char c"
    "f \<noteq> []" "\<forall>c\<in>set f. is_frames_char c"
  shows "\<exists>ys. NewAbstractSymbolFromString q (p @ ''('' @ h @ '')['' @ f @ '']'') =
           (if length h < 2 then Inl SliceBoundsOutOfRange
            else Inr \<lparr>packetType = stringToPacketType q p,
                      headerOptions = \<lparr>QUICVersion = ParseUint_16_32 (drop 2 h)\<rparr>,
                      frameTypes = threadSafeSet ys\<rparr>)
         \<and> set ys = FrameTypeFromString q ` set (Split f CHR '','')"
proof -
  obtain ys where ys:
    "frameSplice_loop q (Split f CHR '','') (threadSafeSet []) = Inr (threadSafeSet ys)"
    "set ys = FrameTypeFromString q ` set (Split f CHR '','')"
    using frameSplice_loop_threadSafe [of q "Split f CHR '',''" "[]"] by auto
  have "NewAbstractSymbolFromString q (p @ ''('' @ h @ '')['' @ f @ '']'') =
           (if length h < 2 then Inl SliceBoundsOutOfRange
            else Inr \<lparr>packetType = stringToPacketType q p,
                      headerOptions = \<lparr>QUICVersion = ParseUint_16_32 (drop 2 h)\<rparr>,
                      frameTypes = threadSafeSet ys\<rparr>)"
    unfolding NewAbstractSymbolFromString_def FindStringSubmatch_header [OF assms]
    using ys
    by (simp add: index_def parse_headerOptions_header [OF assms(3,4)] NewSet_def
        NewAbstractSymbol_def)
  then show ?thesis using ys(2) by blast
qed

text \<open>The converse: a text that the matcher accepts has one of the two shapes, so the
  matcher accepts exactly the language of the regular expression.\<close>

lemma match_frames_shape:
  assumes "match_frames message g1 g2 g3 r \<noteq> []"
  shows "\<exists>f. r = ''['' @ f @ '']'' \<and> f \<noteq> [] \<and> (\<forall>c\<in>set f. is_frames_char c) \<and>
             match_frames message g1 g2 g3 r = [message, g1, g2, g3, f]"
proof -
  from assms obtain r' where r: "r = CHR ''['' # r'"
    by (cases r) (auto simp: match_frames_def split: if_splits)
  let ?f = "takeWhile is_frames_char r'"
  from assms r have f: "?f \<noteq> []" and d: "dropWhile is_frames_char r' = '']''"
    by (auto simp: match_frames_def Let_def split: if_splits)
  have "r' = ?f @ dropWhile is_frames_char r'" by simp
  with d have "r' = ?f @ '']''" by simp
  moreover have "\<forall>c\<in>set ?f. is_frames_char c" by (auto dest: set_takeWhileD)
  moreover have "match_frames message g1 g2 g3 r = [message, g1, g2, g3, ?f]"
    using r f d by (simp add: match_frames_def Let_def)
  ultimately show ?thesis using r f by (intro exI [of _ ?f]) auto
qed

lemma FindStringSubmatch_shape:
  assumes "FindStringSubmatch message \<noteq> []"
  shows "(\<exists>p f. message = p @ ''['' @ f @ '']'' \<and> p \<noteq> [] \<and> (\<forall>c\<in>set p. is_upper c) \<and>
            f \<noteq> [] \<and> (\<forall>c\<in>set f. is_frames_char c)) \<or>
         (\<exists>p h f. message = p @ ''('' @ h @ '')['' @ f @ '']'' \<and> p \<noteq> [] \<and>
            (\<forall>c\<in>set p. is_upper c) \<and> h \<noteq> [] \<and> (\<forall>c\<in>set h. is_header_char c) \<and>
            f \<noteq> [] \<and> (\<forall>c\<in>set f. is_frames_char c))"
proof -
  let ?p = "takeWhile is_upper message"
  let ?r = "dropWhile is_upper message"
  have m: "message = ?p @ ?r" by simp
  have pu: "\<forall>c\<in>set ?p. is_upper c" by (auto dest: set_takeWhileD)
  from assms have p: "?p \<noteq> []"
    by (auto simp: FindStringSubmatch_def Let_def split: if_splits)
  from assms p obtain c r' where r: "?r = c # r'"
    by (cases ?r) (auto simp: FindStringSubmatch_def Let_def)
  show ?thesis
  proof (cases "c = CHR ''(''")
    case False
    with assms p r have "match_frames message ?p [] [] ?r \<noteq> []"
      by (simp add: FindStringSubmatch_def Let_def)
    then obtain f where "?r = ''['' @ f @ '']''" "f \<noteq> []" "\<forall>c\<in>set f. is_frames_char c"
      using match_frames_shape by blast
    with m p pu show ?thesis by metis
  next
    case True
    let ?h = "takeWhile is_header_char r'"
    let ?s = "dropWhile is_header_char r'"
    have hh: "\<forall>c\<in>set ?h. is_header_char c" by (auto dest: set_takeWhileD)
    from assms p r True have mh: "match_header message ?p r' \<noteq> []"
      by (simp add: FindStringSubmatch_def Let_def)
    then have h: "?h \<noteq> []" by (auto simp: match_header_def Let_def split: if_splits)
    from mh h obtain s' where s: "?s = CHR '')'' # s'"
      by (cases ?s) (auto simp: match_header_def Let_def split: if_splits)
    from mh h s have "match_frames message ?p (''('' @ ?h @ '')'') ?h s' \<noteq> []"
      by (simp add: match_header_def Let_def)
    then obtain f where f: "s' = ''['' @ f @ '']''" "f \<noteq> []" "\<forall>c\<in>set f. is_frames_char c"
      using match_frames_shape by blast
    have "r' = ?h @ ?s" by simp
    with s f(1) have "r' = ?h @ '')['' @ f @ '']''" by simp
    with m r True have "message = ?p @ ''('' @ ?h @ '')['' @ f @ '']''" by simp
    with p pu h hh f show ?thesis by blast
  qed
qed

subsection \<open>Symbols that are parsed back from their text\<close>

text \<open>
  A symbol with a packet type of the vocabulary, a version and at least one frame type is
  parsed back from its text, provided the names of its frame types are made of capital
  letters and \<^verbatim>\<open>FrameTypeFromString\<close> maps them back. The version is printed as eight
  hexadecimal digits and read back by \<^verbatim>\<open>ParseUint\<close>.
\<close>

lemma lt16_cases: "(d::nat) < 16 \<Longrightarrow> d \<in> {0,1,2,3,4,5,6,7,8,9,10,11,12,13,14,15}"
  by (simp; arith)

lemma hex_value_hex_digit: "d < 16 \<Longrightarrow> hex_value (hex_digit d) = Some d"
  by (drule lt16_cases) (auto simp: hex_value_def hex_digit_def)

lemma is_header_char_hex_digit: "d < 16 \<Longrightarrow> is_header_char (hex_digit d)"
  by (drule lt16_cases) (auto simp: is_header_char_def hex_digit_def)

lemma unat_byte_div16: "unat (b::byte) div 16 < 16"
proof -
  have "unat b < 2 ^ LENGTH(8)" by (rule unsigned_less)
  then show ?thesis by simp
qed

lemma hex_number_hex2: "hex_number (hex2 b @ rest) acc = hex_number rest (256 * acc + unat b)"
proof -
  have "16 * (16 * acc + unat b div 16) + unat b mod 16 = 256 * acc + unat b" by simp
  then show ?thesis
    unfolding hex2_def by (simp add: hex_value_hex_digit unat_byte_div16) (simp add: add.commute)
qed

lemma hex_number_hex2_last: "hex_number (hex2 b) acc = Some (256 * acc + unat b)"
  using hex_number_hex2 [of b "[]" acc] by simp

lemma hex2_header: "\<forall>c\<in>set (hex2 b). is_header_char c"
  by (simp add: hex2_def is_header_char_hex_digit unat_byte_div16)

lemma Sprintf_hex_hex2: "Sprintf_hex bs = ''0x'' @ concat (map hex2 bs)"
  by (rule Sprintf_hex_def)

lemma unat_bytes32:
  "unat (ucast (drop_bit 24 v) :: byte) = unat (v::32 word) div 2 ^ 24 mod 256"
  "unat (ucast (drop_bit 16 v) :: byte) = unat v div 2 ^ 16 mod 256"
  "unat (ucast (drop_bit 8 v) :: byte) = unat v div 2 ^ 8 mod 256"
  "unat (ucast v :: byte) = unat v mod 256"
  by (simp_all add: unsigned_ucast_eq take_bit_eq_mod drop_bit_eq_div unat_div_distrib)

lemma recompose32:
  assumes "(n::nat) < 2 ^ 32"
  shows "256 * (256 * (256 * (n div 2 ^ 24 mod 256) + n div 2 ^ 16 mod 256) + n div 2 ^ 8 mod 256)
         + n mod 256 = n"
proof -
  define n1 where "n1 = n div 256"
  define n2 where "n2 = n1 div 256"
  define n3 where "n3 = n2 div 256"
  have d: "n div 2 ^ 8 = n1" "n div 2 ^ 16 = n2" "n div 2 ^ 24 = n3"
    by (simp_all add: n1_def n2_def n3_def div_mult2_eq)
  have "n3 < 256" using assms unfolding d(3) [symmetric] by simp
  then have m3: "n3 mod 256 = n3" by simp
  have e: "256 * n1 + n mod 256 = n" "256 * n2 + n1 mod 256 = n1" "256 * n3 + n2 mod 256 = n2"
    by (simp_all add: n1_def n2_def n3_def)
  show ?thesis
    unfolding d m3 e by (rule refl)
qed

lemma ParseUint_Sprintf_hex:
  "ParseUint_16_32 (drop 2 (Sprintf_hex (Uint32ToBEBytes v))) = Some v"
proof -
  define b3 :: byte where "b3 = ucast (drop_bit 24 v)"
  define b2 :: byte where "b2 = ucast (drop_bit 16 v)"
  define b1 :: byte where "b1 = ucast (drop_bit 8 v)"
  define b0 :: byte where "b0 = ucast v"
  have n: "unat v < 2 ^ 32" using unsigned_less [of v] by simp
  have B: "Uint32ToBEBytes v = [b3, b2, b1, b0]"
    by (simp add: Uint32ToBEBytes_def be_bytes32_def b3_def b2_def b1_def b0_def)
  have D: "drop 2 (Sprintf_hex (Uint32ToBEBytes v)) = hex2 b3 @ hex2 b2 @ hex2 b1 @ hex2 b0"
    unfolding B Sprintf_hex_hex2 by simp
  have "hex_number (hex2 b3 @ hex2 b2 @ hex2 b1 @ hex2 b0) 0 =
        Some (256 * (256 * (256 * unat b3 + unat b2) + unat b1) + unat b0)"
    unfolding hex_number_hex2 hex_number_hex2_last by simp
  also have "256 * (256 * (256 * unat b3 + unat b2) + unat b1) + unat b0 = unat v"
    unfolding b3_def b2_def b1_def b0_def unat_bytes32 (1) unat_bytes32 (2) unat_bytes32 (3)
    unfolding unat_bytes32 (4) by (rule recompose32 [OF n])
  finally have "hex_number (drop 2 (Sprintf_hex (Uint32ToBEBytes v))) 0 = Some (unat v)"
    unfolding D .
  moreover have "drop 2 (Sprintf_hex (Uint32ToBEBytes v)) \<noteq> []"
    unfolding D by (simp add: hex2_def)
  ultimately show ?thesis using n by (simp add: ParseUint_16_32_def)
qed

lemma Sprintf_hex_header:
  "\<forall>c\<in>set (Sprintf_hex (Uint32ToBEBytes v)). is_header_char c"
  using hex2_header
  by (auto simp: Sprintf_hex_hex2 Uint32ToBEBytes_def be_bytes32_def is_header_char_def)


lemma Split_append_sep:
  "sep \<notin> set x \<Longrightarrow> Split (x @ sep # r) sep = x # Split r sep"
  by (induction x) auto

lemma Split_Join:
  assumes "names \<noteq> []" "\<forall>n\<in>set names. CHR '','' \<notin> set n"
  shows "Split (Join names '','') CHR '','' = names"
  using assms
proof (induction names "'',''" rule: Join.induct)
  case 1
  then show ?case by simp
next
  case (2 x)
  then show ?case by (simp add: Split_no_sep)
next
  case (3 x y ys)
  then show ?case by (simp add: Split_append_sep)
qed

lemma Join_chars:
  "c \<in> set (Join names '','') \<Longrightarrow> c = CHR '','' \<or> (\<exists>n\<in>set names. c \<in> set n)"
  by (induction names "'',''" rule: Join.induct) auto

lemma Join_nonempty: "names \<noteq> [] \<Longrightarrow> hd names \<noteq> [] \<Longrightarrow> Join names sep \<noteq> []"
  by (induction names sep rule: Join.induct) auto

lemma packetTypeToString_upper:
  assumes "\<forall>n. pt \<noteq> PacketType_other n"
  shows "packetTypeToString pt \<noteq> [] \<and> (\<forall>c\<in>set (packetTypeToString pt). is_upper c) \<and>
         stringToPacketType q (packetTypeToString pt) = pt"
  using assms
  by (cases pt) (simp_all add: packetTypeToString_def stringToPacketType_def is_upper_def)

lemma is_upper_not_comma: "is_upper c \<Longrightarrow> c \<noteq> CHR '',''"
  by (auto simp: is_upper_def)

lemma is_upper_frames: "is_upper c \<Longrightarrow> is_frames_char c"
  by (simp add: is_upper_def is_frames_char_def)

lemma parse_String_with_version:
  assumes pt: "\<forall>n. pt \<noteq> PacketType_other n"
    and xs: "xs \<noteq> []"
    and names: "\<forall>x\<in>set xs. FrameType_String q x \<noteq> [] \<and>
                 (\<forall>c\<in>set (FrameType_String q x). is_upper c) \<and>
                 FrameTypeFromString q (FrameType_String q x) = x"
  shows "\<exists>str ys.
           AbstractSymbol_String q
             \<lparr>packetType = pt, headerOptions = \<lparr>QUICVersion = Some ver\<rparr>,
              frameTypes = threadSafeSet xs\<rparr> = Inr str \<and>
           NewAbstractSymbolFromString q str =
             Inr \<lparr>packetType = pt, headerOptions = \<lparr>QUICVersion = Some ver\<rparr>,
                  frameTypes = threadSafeSet ys\<rparr> \<and>
           set ys = set xs"
proof -
  let ?p = "packetTypeToString pt"
  let ?h = "Sprintf_hex (Uint32ToBEBytes ver)"
  let ?names = "sort (map (FrameType_String q) (remdups xs))"
  let ?f = "Join ?names '',''"
  have sn: "set ?names = FrameType_String q ` set xs" by simp
  have ne: "?names \<noteq> []" using xs by (metis length_0_conv length_map length_sort remdups_eq_nil_iff)
  have up: "\<forall>n\<in>set ?names. n \<noteq> [] \<and> (\<forall>c\<in>set n. is_upper c)"
    using names unfolding sn by auto
  have "hd ?names \<in> set ?names" using ne by (rule hd_in_set)
  then have f1: "?f \<noteq> []" using ne up by (intro Join_nonempty) auto
  have f2: "\<forall>c\<in>set ?f. is_frames_char c"
  proof
    fix c assume "c \<in> set ?f"
    then have "c = CHR '','' \<or> (\<exists>n\<in>set ?names. c \<in> set n)" by (rule Join_chars)
    then show "is_frames_char c"
      using up by (auto simp: is_frames_char_def is_upper_def)
  qed
  have sp: "Split ?f CHR '','' = ?names"
    using ne up by (intro Split_Join) (auto dest: is_upper_not_comma)
  have p: "?p \<noteq> []" "\<forall>c\<in>set ?p. is_upper c" "stringToPacketType q ?p = pt"
    using packetTypeToString_upper [OF pt] by auto
  have h: "?h \<noteq> []" "\<forall>c\<in>set ?h. is_header_char c" "\<not> length ?h < 2"
    using Sprintf_hex_header by (simp_all add: Sprintf_hex_def)
  have rendered: "AbstractSymbol_String q
      \<lparr>packetType = pt, headerOptions = \<lparr>QUICVersion = Some ver\<rparr>,
       frameTypes = threadSafeSet xs\<rparr> = Inr (?p @ ''('' @ ?h @ '')['' @ ?f @ '']'')"
    by (simp add: AbstractSymbol_String_def HeaderOptions_String_def frameStrings_loop_map
        sort_Strings_def)
  obtain ys where ys: "NewAbstractSymbolFromString q (?p @ ''('' @ ?h @ '')['' @ ?f @ '']'') =
      (if length ?h < 2 then Inl SliceBoundsOutOfRange
       else Inr \<lparr>packetType = stringToPacketType q ?p,
                 headerOptions = \<lparr>QUICVersion = ParseUint_16_32 (drop 2 ?h)\<rparr>,
                 frameTypes = threadSafeSet ys\<rparr>)"
    "set ys = FrameTypeFromString q ` set (Split ?f CHR '','')"
    using parse_header [OF p(1,2) h(1,2) f1 f2, of q] by blast
  have "set ys = set xs"
    unfolding ys(2) sp sn using names by (auto simp: image_iff)
  moreover have "NewAbstractSymbolFromString q (?p @ ''('' @ ?h @ '')['' @ ?f @ '']'') =
      Inr \<lparr>packetType = pt, headerOptions = \<lparr>QUICVersion = Some ver\<rparr>,
           frameTypes = threadSafeSet ys\<rparr>"
    unfolding ys(1) using h(3) p(3) by (simp add: ParseUint_Sprintf_hex)
  ultimately show ?thesis using rendered by blast
qed

section \<open>The claims\<close>

subsection \<open>C1: decoding an encoded frame\<close>

text \<open>
  C1 says that for every frame variant decoding the bytes of an encoded well-formed frame
  gives the frame back. The code does not do so for the ack frame that its own
  constructor \<^verbatim>\<open>NewAckFrame(5, 3)\<close> builds: the frame has one block, the encoder writes
  it, and the decoder reads it into \<^verbatim>\<open>firstBlock\<close>, which it never stores. The decoded
  frame has no block.
\<close>

theorem decode_encode_NewAckFrame:
  "NewAckFrame 5 3 =
     \<lparr>largestAcknowledged = 5, ackDelay = 0, ackBlockCount = 0,
      ackBlocks = [\<lparr>gap = 0, block = 3\<rparr>]\<rparr> \<and>
   writeTo (Frame_Ack (NewAckFrame 5 3)) [] = [0x0e, 5, 0, 0, 3] \<and>
   NewFrame (writeTo (Frame_Ack (NewAckFrame 5 3)) []) =
     Inr (Some (Frame_Ack \<lparr>largestAcknowledged = 5, ackDelay = 0, ackBlockCount = 0,
                           ackBlocks = []\<rparr>), [])"
  by (simp add: NewAckFrame_def AckFrame_writeTo_def WriteVarInt_def NewFrame_def
      ReadAckFrame_def Reader_defs FrameType_defs)

text \<open>Three more variants do not come back. A stream frame loses its payload.\<close>

lemma decode_encode_Stream:
  "writeTo (Frame_Stream \<lparr>finBit = False, lenBit = True, offBit = False, st_streamId = 4,
      st_offset = 0, st_length = 2, streamData = [0xAA, 0xBB]\<rparr>) [] =
     [0x12, 0x04, 0x02, 0xAA, 0xBB] \<and>
   NewFrame [0x12, 0x04, 0x02, 0xAA, 0xBB] =
     Inr (Some (Frame_Stream \<lparr>finBit = False, lenBit = True, offBit = False, st_streamId = 4,
       st_offset = 0, st_length = 2, streamData = []\<rparr>), [0xAA, 0xBB])"
  by (simp add: StreamFrame_writeTo_def WriteVarInt_def NewFrame_def ReadStreamFrame_def
      Reader_defs FrameType_defs)

text \<open>An application close frame is written with a length of eight bytes, which the
  decoder reads as a variable-length integer.\<close>

lemma decode_encode_ApplicationClose:
  "writeTo (Frame_ApplicationClose
      \<lparr>ac_errorCode = 1, ac_reasonPhraseLength = 2, ac_reasonPhrase = [0x41, 0x42]\<rparr>) [] =
     [0x03, 0, 1, 0, 0, 0, 0, 0, 0, 0, 2, 0x41, 0x42] \<and>
   NewFrame [0x03, 0, 1, 0, 0, 0, 0, 0, 0, 0, 2, 0x41, 0x42] =
     Inr (Some (Frame_ApplicationClose
       \<lparr>ac_errorCode = 1, ac_reasonPhraseLength = 0, ac_reasonPhrase = []\<rparr>),
       [0, 0, 0, 0, 0, 0, 2, 0x41, 0x42])"
  by (simp add: ApplicationCloseFrame_writeTo_def be_bytes16_def be_bytes64_def NewFrame_def
      NewApplicationCloseFrame_def Reader_defs FrameType_defs)

text \<open>A pong frame is written with the tag of a ping frame and decoded as one.\<close>

lemma decode_encode_Pong:
  "writeTo (Frame_Pong (PongFrame \<lparr>ping_length = 1, ping_data = [0x2A]\<rparr>)) [] = [0x07, 1, 0x2A] \<and>
   NewFrame [0x07, 1, 0x2A] = Inr (Some (Frame_Ping \<lparr>ping_length = 1, ping_data = [0x2A]\<rparr>), [])"
  by (simp add: PongFrame_writeTo_def PingFrame_writeTo_def NewFrame_def NewPingFrame_def
      Reader_defs FrameType_defs)

text \<open>The scenario of the spec for a reset stream frame does come back.\<close>

lemma decode_encode_ResetStream:
  "writeTo (Frame_ResetStream \<lparr>rs_streamId = 4, rs_errorCode = 7, rs_finalOffset = 300\<rparr>) [] =
     [0x01, 0x04, 0x00, 0x07, 0x41, 0x2c] \<and>
   NewFrame [0x01, 0x04, 0x00, 0x07, 0x41, 0x2c] =
     Inr (Some (Frame_ResetStream \<lparr>rs_streamId = 4, rs_errorCode = 7, rs_finalOffset = 300\<rparr>), [])"
  by (simp add: ResetStream_writeTo_def WriteVarInt_def be_bytes16_def NewFrame_def
      NewResetStream_def Reader_defs FrameType_defs)

subsection \<open>C2: the dispatcher\<close>

text \<open>
  C2 says that the dispatcher selects the variant of the table for every tag from
  \<open>0x00\<close> to \<open>0x0e\<close> and for the stream tags, Pong for \<open>0x0d\<close>, and reports an unknown
  type for every other tag. The switch of \<^verbatim>\<open>NewFrame\<close> has no case for \<^verbatim>\<open>PongType\<close>:
  on the encoding of an empty pong frame it panics with the unknown frame type 13.
  (\<open>NewFrame_dispatch\<close>, \<open>NewFrame_unhandled\<close> and \<open>handled_tag_range\<close> show that
  every other tag is treated as C2 says.)
\<close>

theorem NewFrame_Pong_tag:
  "PongType = 0x0d \<and> NewFrame [PongType, 0x00] = Inl (UnknownFrameType PongType)"
  by (simp add: NewFrame_def Reader_defs FrameType_defs)

subsection \<open>C3: the end of the input\<close>




subsection \<open>C4: the payload of a stream frame\<close>

text \<open>
  C4 says that the stream decoder consumes the payload and stores it in the frame. On
  the encoding of a stream frame with the length flag, stream id 4, length 2 and the
  payload \<open>AA BB\<close>, \<^verbatim>\<open>ReadStreamFrame\<close> returns a frame without data and leaves the two
  payload bytes unread. (\<open>ReadStreamFrame_streamData\<close>: it stores no payload on any
  input.)
\<close>

theorem ReadStreamFrame_payload:
  "NewFrame [0x12, 0x04, 0x02, 0xAA, 0xBB] =
     Inr (Some (Frame_Stream \<lparr>finBit = False, lenBit = True, offBit = False, st_streamId = 4,
       st_offset = 0, st_length = 2, streamData = []\<rparr>), [0xAA, 0xBB]) \<and>
   ReadStreamFrame [0x12, 0x04, 0x02, 0xAA, 0xBB] =
     (\<lparr>finBit = False, lenBit = True, offBit = False, st_streamId = 4,
       st_offset = 0, st_length = 2, streamData = []\<rparr>, [0xAA, 0xBB])"
  by (simp add: NewFrame_def ReadStreamFrame_def Reader_defs FrameType_defs)

subsection \<open>C5: the field of a max data frame\<close>

text \<open>
  C5 says that decoding a max data frame reads one variable-length integer after the
  tag and nothing more. \<^verbatim>\<open>NewMaxDataFrame\<close> reads the integer and then reads eight more
  bytes into the same field: on the frame \<open>04 05\<close> followed by nine bytes of the next
  frames, the field is not 5 but the value of the eight bytes after it, and one byte is
  left instead of nine.
\<close>

theorem NewMaxDataFrame_overwrites:
  "NewFrame [0x04, 0x05, 1, 2, 3, 4, 5, 6, 7, 8, 0x07] =
     Inr (Some (Frame_MaxData \<lparr>md_maximumData = 0x0102030405060708\<rparr>), [0x07])"
  by (simp add: NewFrame_def NewMaxDataFrame_def Reader_defs FrameType_defs)

text \<open>At the end of the source the second read fails and the field keeps the integer.\<close>

lemma NewMaxDataFrame_alone:
  "NewFrame [0x04, 0x05] = Inr (Some (Frame_MaxData \<lparr>md_maximumData = 5\<rparr>), [])"
  by (simp add: NewFrame_def NewMaxDataFrame_def Reader_defs FrameType_defs)

subsection \<open>C6: parsing the text of a symbol\<close>

text \<open>
  C6 says that parsing the canonical text of a symbol gives the symbol back, with or
  without a version, and also for the empty set of frame types. The text of a symbol
  without version has empty parentheses, and the text of a symbol without frame types has
  empty brackets; the regular expression of the parser matches neither, and the parser
  panics on the index of the first group. (\<open>AbstractSymbol_String_order\<close>: the other
  half of C6 holds, the text does not depend on order or repetition in the set.)
\<close>

theorem parse_String_fails:
  "AbstractSymbol_String qt_example
     \<lparr>packetType = ShortHeaderPacket, headerOptions = \<lparr>QUICVersion = None\<rparr>,
      frameTypes = threadSafeSet [''ACK'']\<rparr> = Inr ''SHORT()[ACK]'' \<and>
   NewAbstractSymbolFromString qt_example ''SHORT()[ACK]'' = Inl IndexOutOfRange \<and>
   AbstractSymbol_String qt_example
     \<lparr>packetType = Initial, headerOptions = \<lparr>QUICVersion = Some 0xff00001d\<rparr>,
      frameTypes = threadSafeSet []\<rparr> = Inr ''INITIAL(0xff00001d)[]'' \<and>
   NewAbstractSymbolFromString qt_example ''INITIAL(0xff00001d)[]'' = Inl IndexOutOfRange"
  by (simp add: AbstractSymbol_String_def packetTypeToString_def HeaderOptions_String_def
      sort_Strings_def qt_example_def Sprintf_hex_def hex2_def Uint32ToBEBytes_def
      be_bytes32_def
      hex_digit_def NewAbstractSymbolFromString_def regex_defs index_def)

text \<open>The scenario of the spec, a symbol with a version and two frame types, is parsed
  and rendered back to the same text.\<close>

lemma parse_String_scenario:
  "NewAbstractSymbolFromString qt_example ''INITIAL(0xff00001d)[ACK,CRYPTO]'' =
     Inr \<lparr>packetType = Initial, headerOptions = \<lparr>QUICVersion = Some 0xff00001d\<rparr>,
          frameTypes = threadSafeSet [''ACK'', ''CRYPTO'']\<rparr> \<and>
   AbstractSymbol_String qt_example
     \<lparr>packetType = Initial, headerOptions = \<lparr>QUICVersion = Some 0xff00001d\<rparr>,
      frameTypes = threadSafeSet [''ACK'', ''CRYPTO'']\<rparr> = Inr ''INITIAL(0xff00001d)[ACK,CRYPTO]''"
  by (simp add: AbstractSymbol_String_def packetTypeToString_def HeaderOptions_String_def
      sort_Strings_def qt_example_def Sprintf_hex_def hex2_def Uint32ToBEBytes_def
      be_bytes32_def
      hex_digit_def NewAbstractSymbolFromString_def regex_defs index_def
      parse_headerOptions_def slice_from_def ParseUint_16_32_def hex_value_def NewSet_def
      NewAbstractSymbol_def stringToPacketType_def Let_def)

subsection \<open>C7: text that the parser cannot read\<close>

text \<open>
  C7 says that the parser fails with a format error naming the input on every text
  outside the grammar, and never returns a default symbol. The text \<^verbatim>\<open>FOO[ACK]\<close>, whose
  packet type is not in the vocabulary, is parsed without any error into a symbol with
  the zero packet type, and the text \<^verbatim>\<open>INITIAL(zz)[ACK]\<close>, whose header is no version,
  into a symbol with no version.
\<close>

theorem parse_outside_grammar_accepted:
  "NewAbstractSymbolFromString qt_example ''FOO[ACK]'' =
     Inr \<lparr>packetType = PacketType_zero qt_example, headerOptions = \<lparr>QUICVersion = None\<rparr>,
          frameTypes = threadSafeSet [''ACK'']\<rparr> \<and>
   NewAbstractSymbolFromString qt_example ''INITIAL(zz)[ACK]'' =
     Inr \<lparr>packetType = Initial, headerOptions = \<lparr>QUICVersion = None\<rparr>,
          frameTypes = threadSafeSet [''ACK'']\<rparr>"
  by (simp add: NewAbstractSymbolFromString_def regex_defs index_def parse_headerOptions_def
      slice_from_def ParseUint_16_32_def NewSet_def NewAbstractSymbol_def
      stringToPacketType_def qt_example_def Let_def)

text \<open>
  C7 as amended: the parser reports no format error. On a text that its regular
  expression does not match it stops with Go's index-out-of-range panic, which does not
  name the input. A text that the expression matches is a name \<open>p\<close> of capital letters,
  an optional header \<open>h\<close> in parentheses and a list \<open>f\<close> of capital letters and commas in
  brackets; it is parsed into a symbol whatever the name and the header are: the packet
  type is the zero value when the name is not in the vocabulary (\<open>stringToPacketType\<close>),
  the version is absent when the header after its first two characters is no
  hexadecimal number of 32 bits (\<open>ParseUint_16_32\<close>). The only other failure is the
  slice-bounds panic for a header of one character.
\<close>

theorem parse_results:
  "(FindStringSubmatch message = [] \<longrightarrow>
      NewAbstractSymbolFromString q message = Inl IndexOutOfRange) \<and>
   (p \<noteq> [] \<and> (\<forall>c\<in>set p. is_upper c) \<and> f \<noteq> [] \<and> (\<forall>c\<in>set f. is_frames_char c) \<longrightarrow>
      (\<exists>ys. NewAbstractSymbolFromString q (p @ ''['' @ f @ '']'') =
               Inr \<lparr>packetType = stringToPacketType q p, headerOptions = \<lparr>QUICVersion = None\<rparr>,
                    frameTypes = threadSafeSet ys\<rparr>
             \<and> set ys = FrameTypeFromString q ` set (Split f CHR '',''))) \<and>
   (p \<noteq> [] \<and> (\<forall>c\<in>set p. is_upper c) \<and> h \<noteq> [] \<and> (\<forall>c\<in>set h. is_header_char c) \<and>
    f \<noteq> [] \<and> (\<forall>c\<in>set f. is_frames_char c) \<longrightarrow>
      (\<exists>ys. NewAbstractSymbolFromString q (p @ ''('' @ h @ '')['' @ f @ '']'') =
               (if length h < 2 then Inl SliceBoundsOutOfRange
                else Inr \<lparr>packetType = stringToPacketType q p,
                          headerOptions = \<lparr>QUICVersion = ParseUint_16_32 (drop 2 h)\<rparr>,
                          frameTypes = threadSafeSet ys\<rparr>)
             \<and> set ys = FrameTypeFromString q ` set (Split f CHR '','')))"
  using parse_no_match [of message q] parse_no_header [of p f q] parse_header [of p h f q]
  by blast

theorem parse_results_witness:
  "FindStringSubmatch ''hello'' = [] \<and>
   NewAbstractSymbolFromString qt_example ''hello'' = Inl IndexOutOfRange \<and>
   list_all is_upper ''FOO'' \<and> list_all is_frames_char ''ACK'' \<and> list_all is_header_char ''zz'' \<and>
   (\<exists>ys. NewAbstractSymbolFromString qt_example ''FOO[ACK]'' =
      Inr \<lparr>packetType = PacketType_other 0, headerOptions = \<lparr>QUICVersion = None\<rparr>,
           frameTypes = threadSafeSet ys\<rparr> \<and> set ys = {''ACK''}) \<and>
   (\<exists>ys. NewAbstractSymbolFromString qt_example ''FOO(zz)[ACK]'' =
      Inr \<lparr>packetType = PacketType_other 0, headerOptions = \<lparr>QUICVersion = None\<rparr>,
           frameTypes = threadSafeSet ys\<rparr> \<and> set ys = {''ACK''})"
proof -
  have hyps: "FindStringSubmatch ''hello'' = []"
    "''FOO'' \<noteq> [] \<and> (\<forall>c\<in>set ''FOO''. is_upper c) \<and> ''ACK'' \<noteq> [] \<and>
     (\<forall>c\<in>set ''ACK''. is_frames_char c)"
    "''zz'' \<noteq> [] \<and> (\<forall>c\<in>set ''zz''. is_header_char c)"
    by (simp_all add: regex_defs)
  have chars: "list_all is_upper ''FOO'' \<and> list_all is_frames_char ''ACK'' \<and>
     list_all is_header_char ''zz''"
    by (simp add: regex_defs)
  have vals: "stringToPacketType qt_example ''FOO'' = PacketType_other 0"
    "ParseUint_16_32 (drop 2 ''zz'') = None"
    "FrameTypeFromString qt_example ` set (Split ''ACK'' CHR '','') = {''ACK''}"
    by (simp_all add: stringToPacketType_def qt_example_def ParseUint_16_32_def)
  show ?thesis
    using parse_results [of "''hello''" qt_example "''FOO''" "''ACK''" "''zz''"] hyps chars vals
    by simp
qed

subsection \<open>C8: the text of a set\<close>

text \<open>
  C8 says that the text of an empty set is \<^verbatim>\<open>[]\<close> and that the text of any other set is
  the sorted texts of its members between brackets. \<^verbatim>\<open>AbstractSet.String\<close> assigns the
  text of the first member to index 0 of an empty slice: on a set of one symbol it panics
  where C8 expects \<^verbatim>\<open>[INITIAL(0xff00001d)[ACK]]\<close>. (\<open>AbstractSet_String_nonempty\<close>: it
  returns no text for any set that is not empty; \<open>AbstractSet_String_empty\<close>: the text of
  the empty set is as C8 says.)
\<close>

theorem AbstractSet_String_singleton:
  "AbstractSet_String qt_example
     (AbstractSet (threadSafeSet
        [\<lparr>packetType = Initial, headerOptions = \<lparr>QUICVersion = Some 0xff00001d\<rparr>,
          frameTypes = threadSafeSet [''ACK'']\<rparr>])) = Inl IndexOutOfRange"
  by (simp add: AbstractSet_String_def AbstractSymbol_String_def assign_index_def)

subsection \<open>C9: the map after an insertion\<close>

text \<open>
  C9 says that after every insertion a lookup under the same canonical text returns
  the concrete pair that was inserted. \<^verbatim>\<open>AddIOs\<close> renders the key with
  \<^verbatim>\<open>AbstractOrderedPair.String\<close>, which calls \<^verbatim>\<open>AbstractSet.String\<close> on every output set:
  when an output set has a member the call panics (the defect of C8) and nothing is
  stored. (\<open>AddIOs_nonempty_fails\<close>: so it is for every insertion with such an output
  set; \<open>AddIOs_lookup\<close> and \<open>AddIOs_other_keys\<close>: when the key can be rendered, the map
  does what C9 says.)
\<close>

theorem AddIOs_nonempty_output:
  "AddIOs qt_example (NewAbstractConcreteMap :: (string, string) AbstractConcreteMap)
     [\<lparr>packetType = Initial, headerOptions = \<lparr>QUICVersion = Some 0xff00001d\<rparr>,
       frameTypes = threadSafeSet [''CRYPTO'']\<rparr>]
     [AbstractSet (threadSafeSet
        [\<lparr>packetType = Initial, headerOptions = \<lparr>QUICVersion = Some 0xff00001d\<rparr>,
          frameTypes = threadSafeSet [''ACK'']\<rparr>])]
     [''sent''] [''received''] = Inl IndexOutOfRange"
  by (simp add: AddIOs_def AddOPs_def AbstractOrderedPair_String_def AbstractSet_String_def
      AbstractSymbol_String_def assign_index_def)

subsection \<open>C10: the constructor of abstract sets\<close>

text \<open>
  C10 says that \<^verbatim>\<open>NewAbstractSet\<close> never returns a value: the set that
  \<^verbatim>\<open>mapset.NewSet()\<close> returns does not have the dynamic type \<^verbatim>\<open>AbstractSet\<close>, so the type
  assertion panics on every call.
\<close>

theorem NewAbstractSet_panics:
  "(NewAbstractSet :: error + 'ft AbstractSet) = Inl InterfaceConversion"
  by (simp add: NewAbstractSet_def assert_AbstractSet_def NewSet_def)

end
